theory Spec2Isabelle
  imports Complex_Main "HOL-Library.AList" "HOL-Library.Sublist"
begin

section \<open>JSON values and the Python operations applied to them\<close>

text \<open>
  The scripts work on what \<^verbatim>\<open>json.loads\<close> returns: \<^verbatim>\<open>None\<close>, booleans, integers,
  floats, strings, lists and dictionaries with string keys. A dictionary is an association
  list in insertion order (its keys are distinct, as the decoder leaves them). A \<open>char\<close>
  stands for one character of a Python string, so \<open>length\<close> is Python's \<^verbatim>\<open>len\<close>.
\<close>

datatype json =
    JNull
  | JBool bool
  | JInt int
  | JFloat real
  | JStr string
  | JList "json list"
  | JObj "(string \<times> json) list"

text \<open>
  The exceptions the modelled code can raise on a JSON value of an unexpected type; the
  last one is raised by the constructors of the chat library.
\<close>

datatype py_error = AttributeError | TypeError | ValidationError

definition bindE :: "py_error + 'a \<Rightarrow> ('a \<Rightarrow> py_error + 'b) \<Rightarrow> py_error + 'b" where
  "bindE m f = (case m of Inl e \<Rightarrow> Inl e | Inr x \<Rightarrow> f x)"

text \<open>Truth value testing (\<^verbatim>\<open>if x:\<close>, \<^verbatim>\<open>x or y\<close>, \<^verbatim>\<open>bool(x)\<close>).\<close>

fun truthy :: "json \<Rightarrow> bool" where
  "truthy JNull = False"
| "truthy (JBool b) = b"
| "truthy (JInt i) = (i \<noteq> 0)"
| "truthy (JFloat r) = (r \<noteq> 0)"
| "truthy (JStr s) = (s \<noteq> [])"
| "truthy (JList xs) = (xs \<noteq> [])"
| "truthy (JObj d) = (d \<noteq> [])"

definition py_or :: "json \<Rightarrow> json \<Rightarrow> json" where
  "py_or a b = (if truthy a then a else b)"

text \<open>\<^verbatim>\<open>d.get(k, default)\<close> on a dictionary, and on any value: only a dictionary has \<^verbatim>\<open>get\<close>.\<close>

definition dict_get :: "(string \<times> json) list \<Rightarrow> string \<Rightarrow> json \<Rightarrow> json" where
  "dict_get d k dflt = (case map_of d k of None \<Rightarrow> dflt | Some v \<Rightarrow> v)"

definition py_get :: "json \<Rightarrow> string \<Rightarrow> json \<Rightarrow> py_error + json" where
  "py_get x k dflt = (case x of JObj d \<Rightarrow> Inr (dict_get d k dflt) | _ \<Rightarrow> Inl AttributeError)"

text \<open>\<^verbatim>\<open>len(x)\<close>: defined on strings, lists and dictionaries, a \<^verbatim>\<open>TypeError\<close> otherwise.\<close>

fun py_len :: "json \<Rightarrow> py_error + nat" where
  "py_len (JStr s) = Inr (length s)"
| "py_len (JList xs) = Inr (length xs)"
| "py_len (JObj d) = Inr (length d)"
| "py_len _ = Inl TypeError"

text \<open>
  \<^verbatim>\<open>x[:n] + marker\<close> with a string \<^verbatim>\<open>marker\<close>: a string is cut and extended; a list cannot
  be concatenated with a string and a dictionary cannot be sliced.
\<close>

fun py_take_add :: "json \<Rightarrow> nat \<Rightarrow> string \<Rightarrow> py_error + json" where
  "py_take_add (JStr s) n marker = Inr (JStr (take n s @ marker))"
| "py_take_add _ n marker = Inl TypeError"

text \<open>
  \<^verbatim>\<open>str(x)\<close>, which is also what a replacement field \<^verbatim>\<open>{x}\<close> of an f-string inserts. A string
  is returned as it is; the rendering of every other value (\<^verbatim>\<open>None\<close>, numbers, the \<^verbatim>\<open>repr\<close> of
  lists and dictionaries) is the parameter \<open>ps\<close> of the model.
\<close>

definition py_str :: "(json \<Rightarrow> string) \<Rightarrow> json \<Rightarrow> string" where
  "py_str ps v = (case v of JStr s \<Rightarrow> s | _ \<Rightarrow> ps v)"

text \<open>\<^verbatim>\<open>str(n)\<close> of a non-negative integer: its decimal digits.\<close>

definition digit_char :: "nat \<Rightarrow> char" where
  "digit_char d = ''0123456789'' ! d"

fun string_of_nat :: "nat \<Rightarrow> string" where
  "string_of_nat n =
     (if n < 10 then [digit_char n] else string_of_nat (n div 10) @ [digit_char (n mod 10)])"

declare string_of_nat.simps [simp del]

section \<open>Messages\<close>

text \<open>
  The message classes of the chat library, as the values the converter passes to their
  constructors: \<^verbatim>\<open>ToolCallContent(format, content)\<close>, \<^verbatim>\<open>ToolCall(id, function, arguments, view)\<close>,
  \<^verbatim>\<open>UserMessage(content)\<close>, \<^verbatim>\<open>AssistantMessage(content, tool_calls)\<close> (\<open>None\<close> when the
  constructor is called without \<^verbatim>\<open>tool_calls\<close>) and \<^verbatim>\<open>ToolMessage(content, tool_call_id, function)\<close>.
\<close>

datatype tool_call_content =
  ToolCallContent (tcc_format: string) (tcc_content: string)

datatype tool_call =
  ToolCall (tc_id: string) (tc_function: json) (tc_arguments: json) (tc_view: tool_call_content)

datatype message =
    UserMessage json
  | AssistantMessage json "tool_call list option"
  | ToolMessage json string json

text \<open>
  The constructor calls. The classes validate their arguments and raise
  \<^verbatim>\<open>ValidationError\<close> on a content or a function name that is not a string, and on tool
  call arguments that are not a dictionary. (The library also takes a list of content
  parts for a content; the converter builds none, and these calls refuse a list.)
\<close>

definition new_tool_call :: "string \<Rightarrow> json \<Rightarrow> json \<Rightarrow> string \<Rightarrow> py_error + tool_call" where
  "new_tool_call call_id func arguments view_content =
     (case func of
        JStr f \<Rightarrow>
          (case arguments of
             JObj d \<Rightarrow> Inr (ToolCall call_id func arguments (ToolCallContent ''markdown'' view_content))
           | _ \<Rightarrow> Inl ValidationError)
      | _ \<Rightarrow> Inl ValidationError)"

definition new_user_message :: "json \<Rightarrow> py_error + message" where
  "new_user_message content =
     (case content of JStr s \<Rightarrow> Inr (UserMessage content) | _ \<Rightarrow> Inl ValidationError)"

definition new_assistant_message :: "json \<Rightarrow> tool_call list option \<Rightarrow> py_error + message" where
  "new_assistant_message content tool_calls =
     (case content of
        JStr s \<Rightarrow> Inr (AssistantMessage content tool_calls)
      | _ \<Rightarrow> Inl ValidationError)"

definition new_tool_message :: "json \<Rightarrow> string \<Rightarrow> json \<Rightarrow> py_error + message" where
  "new_tool_message content tool_call_id func =
     (case content of
        JStr s \<Rightarrow>
          (case func of
             JStr f \<Rightarrow> Inr (ToolMessage content tool_call_id func)
           | _ \<Rightarrow> Inl ValidationError)
      | _ \<Rightarrow> Inl ValidationError)"

section \<open>The converter: \<^verbatim>\<open>convert_openhands_history_to_messages\<close>\<close>

text \<open>
  The three local variables of the function. \<open>call_counter\<close> starts at 1 and is only
  incremented, so it is a natural number.
\<close>

record conv_state =
  messages :: "message list"
  pending_tool_call :: "(json \<times> string) option"
  call_counter :: nat

definition init_state :: conv_state where
  "init_state = \<lparr>messages = [], pending_tool_call = None, call_counter = 1\<rparr>"

definition call_id_of :: "nat \<Rightarrow> string" where
  "call_id_of n = ''call_'' @ string_of_nat n"

text \<open>
  The four statements shared by the \<^verbatim>\<open>run\<close>, \<^verbatim>\<open>read\<close>, \<^verbatim>\<open>write\<close> and generic branches: take
  the identifier from the counter, increment the counter, append the assistant message with
  its single tool call, and remember the call as pending. An exception of a constructor
  leaves the function, so nothing of the state is kept then.
\<close>

definition emit_tool_call ::
  "conv_state \<Rightarrow> json \<Rightarrow> json \<Rightarrow> json \<Rightarrow> string \<Rightarrow> py_error + conv_state" where
  "emit_tool_call st thought func arguments view_content =
     (let call_id = call_id_of (call_counter st)
      in bindE (new_tool_call call_id func arguments view_content) (\<lambda>tool_call.
         bindE (new_assistant_message thought (Some [tool_call])) (\<lambda>m.
           Inr (st\<lparr>messages := messages st @ [m],
                   pending_tool_call := Some (func, call_id),
                   call_counter := call_counter st + 1\<rparr>))))"

text \<open>Lines 62--66: a user message.\<close>

definition user_message :: "conv_state \<Rightarrow> json \<Rightarrow> json \<Rightarrow> py_error + conv_state" where
  "user_message st args content =
     bindE (py_get args ''content'' (JStr [])) (\<lambda>c.
       let msg_content = py_or c content
       in if truthy msg_content
          then bindE (new_user_message msg_content) (\<lambda>m.
                 Inr (st\<lparr>messages := messages st @ [m]\<rparr>))
          else Inr st)"

text \<open>Line 121: the preview of the content of a \<^verbatim>\<open>write\<close> action.\<close>

definition write_preview :: "json \<Rightarrow> py_error + json" where
  "write_preview c =
     bindE (py_len c) (\<lambda>n. if n > 500 then py_take_add c 500 ''...'' else Inr c)"

text \<open>
  Lines 69--174: an agent action other than \<^verbatim>\<open>message\<close>. The first statement reads
  \<^verbatim>\<open>args.get("thought", "")\<close>, which raises unless \<^verbatim>\<open>args\<close> is a dictionary.
\<close>

definition agent_action :: "(json \<Rightarrow> string) \<Rightarrow> conv_state \<Rightarrow> json \<Rightarrow> json \<Rightarrow> py_error + conv_state" where
  "agent_action ps st action args =
     (case args of
        JObj a \<Rightarrow>
          (let thought = py_or (dict_get a ''thought'' (JStr [])) (JStr [])
           in if action = JStr ''run'' then
                (let command = dict_get a ''command'' (JStr [])
                 in emit_tool_call st thought (JStr ''bash'') (JObj [(''command'', command)])
                      (''```bash\<newline>'' @ py_str ps command @ ''\<newline>```''))
              else if action = JStr ''read'' then
                (let path = dict_get a ''path'' (JStr [])
                 in emit_tool_call st thought (JStr ''read_file'') (JObj [(''path'', path)])
                      (''Reading file: `'' @ py_str ps path @ ''`''))
              else if action = JStr ''write'' then
                (let path = dict_get a ''path'' (JStr [])
                 in bindE (write_preview (dict_get a ''content'' (JStr []))) (\<lambda>file_content.
                      emit_tool_call st thought (JStr ''write_file'') (JObj [(''path'', path)])
                        (''Writing to file: `'' @ py_str ps path @ ''`\<newline>```\<newline>''
                           @ py_str ps file_content @ ''\<newline>```'')))
              else if action = JStr ''think'' then
                bindE (new_assistant_message (JStr (''**Thinking:** '' @ py_str ps thought)) None)
                  (\<lambda>m. Inr (st\<lparr>messages := messages st @ [m], pending_tool_call := None\<rparr>))
              else if action = JStr ''finish'' then
                (let final_thought = py_or (dict_get a ''thought'' (JStr [])) thought
                 in bindE (new_assistant_message
                             (JStr (''**Finished:** '' @ py_str ps final_thought)) None)
                      (\<lambda>m. Inr (st\<lparr>messages := messages st @ [m], pending_tool_call := None\<rparr>)))
              else
                emit_tool_call st thought action args (''Action: '' @ py_str ps action))
      | _ \<Rightarrow> Inl AttributeError)"

text \<open>Lines 177--182: an agent message.\<close>

definition agent_message :: "conv_state \<Rightarrow> json \<Rightarrow> json \<Rightarrow> py_error + conv_state" where
  "agent_message st args content =
     bindE (py_get args ''content'' (JStr [])) (\<lambda>c.
       let msg_content = py_or c content
       in bindE (if truthy msg_content
                 then bindE (new_assistant_message msg_content None) (\<lambda>m.
                        Inr (st\<lparr>messages := messages st @ [m]\<rparr>))
                 else Inr st) (\<lambda>st'.
            Inr (st'\<lparr>pending_tool_call := None\<rparr>)))"

text \<open>
  Lines 189--191: the text of an observation; \<open>ev\<close> is the event dictionary.
\<close>

definition observation_content :: "(json \<Rightarrow> string) \<Rightarrow> (string \<times> json) list \<Rightarrow> json" where
  "observation_content ps ev =
     (let obs_content = dict_get ev ''content'' (JStr [])
      in if \<not> truthy obs_content \<and> map_of ev ''extras'' \<noteq> None
         then JStr (py_str ps (dict_get ev ''extras'' (JObj [])))
         else obs_content)"

text \<open>
  Lines 186--205: an observation attached to the pending call \<open>(func_name, call_id)\<close>.
\<close>

definition observation_result ::
  "(json \<Rightarrow> string) \<Rightarrow> conv_state \<Rightarrow> json \<times> string \<Rightarrow> (string \<times> json) list \<Rightarrow> py_error + conv_state" where
  "observation_result ps st pending ev =
     (let func_name = fst pending;
          call_id = snd pending;
          obs_content = observation_content ps ev
      in bindE (py_len obs_content) (\<lambda>n.
           bindE (if n > 5000 then py_take_add obs_content 5000 ''\<newline>... (truncated)''
                  else Inr obs_content) (\<lambda>obs_content.
             bindE (new_tool_message obs_content call_id func_name) (\<lambda>m.
               Inr (st\<lparr>messages := messages st @ [m], pending_tool_call := None\<rparr>)))))"

text \<open>
  Lines 51--205: the body of the loop for one event. \<^verbatim>\<open>event.get\<close> raises unless the event
  is a dictionary. The comparisons with string constants hold for that string only.
\<close>

definition step :: "(json \<Rightarrow> string) \<Rightarrow> conv_state \<Rightarrow> json \<Rightarrow> py_error + conv_state" where
  "step ps st event =
     (case event of
        JObj ev \<Rightarrow>
          (let source = dict_get ev ''source'' (JStr []);
               action = dict_get ev ''action'' JNull;
               observation = dict_get ev ''observation'' JNull;
               args = dict_get ev ''args'' (JObj []);
               content = py_or (dict_get ev ''content'' JNull) (dict_get ev ''message'' (JStr []))
           in if action = JStr ''system'' then Inr st
              else if source = JStr ''user'' \<and> action = JStr ''message'' then
                user_message st args content
              else if source = JStr ''agent'' \<and> truthy action \<and> action \<noteq> JStr ''message'' then
                agent_action ps st action args
              else if source = JStr ''agent'' \<and> action = JStr ''message'' then
                agent_message st args content
              else if truthy observation \<and> pending_tool_call st \<noteq> None then
                observation_result ps st (the (pending_tool_call st)) ev
              else Inr st)
      | _ \<Rightarrow> Inl AttributeError)"

text \<open>The loop over the history, stopping at the first exception.\<close>

fun run_events :: "(json \<Rightarrow> string) \<Rightarrow> conv_state \<Rightarrow> json list \<Rightarrow> py_error + conv_state" where
  "run_events ps st [] = Inr st"
| "run_events ps st (event # events) =
     (case step ps st event of Inl e \<Rightarrow> Inl e | Inr st' \<Rightarrow> run_events ps st' events)"

definition convert_openhands_history_to_messages ::
  "(json \<Rightarrow> string) \<Rightarrow> json list \<Rightarrow> py_error + message list" where
  "convert_openhands_history_to_messages ps history =
     (case run_events ps init_state history of Inl e \<Rightarrow> Inl e | Inr st \<Rightarrow> Inr (messages st))"

section \<open>The aggregator: \<^verbatim>\<open>build_agent_run\<close>\<close>

text \<open>
  \<^verbatim>\<open>x == y\<close> on decoded JSON values: booleans, integers and floats compare by their numeric
  value (\<^verbatim>\<open>True == 1\<close>, \<^verbatim>\<open>1 == 1.0\<close>), strings and \<^verbatim>\<open>None\<close> with their own kind, lists
  element by element, dictionaries key by key.
\<close>

fun py_num :: "json \<Rightarrow> real option" where
  "py_num (JBool b) = Some (if b then 1 else 0)"
| "py_num (JInt i) = Some (real_of_int i)"
| "py_num (JFloat r) = Some r"
| "py_num _ = None"

fun py_eq :: "json \<Rightarrow> json \<Rightarrow> bool"
  and py_eq_list :: "json list \<Rightarrow> json list \<Rightarrow> bool"
  and py_eq_items :: "(string \<times> json) list \<Rightarrow> (string \<times> json) list \<Rightarrow> bool" where
  "py_eq JNull y = (y = JNull)"
| "py_eq (JBool b) y = (py_num y = Some (if b then 1 else 0))"
| "py_eq (JInt i) y = (py_num y = Some (real_of_int i))"
| "py_eq (JFloat r) y = (py_num y = Some r)"
| "py_eq (JStr s) y = (y = JStr s)"
| "py_eq (JList xs) y = (case y of JList ys \<Rightarrow> py_eq_list xs ys | _ \<Rightarrow> False)"
| "py_eq (JObj d) y =
     (case y of JObj e \<Rightarrow> set (map fst d) = set (map fst e) \<and> py_eq_items d e | _ \<Rightarrow> False)"
| "py_eq_list [] ys = (ys = [])"
| "py_eq_list (x # xs) ys = (case ys of [] \<Rightarrow> False | y # ys' \<Rightarrow> py_eq x y \<and> py_eq_list xs ys')"
| "py_eq_items [] e = True"
| "py_eq_items (kv # d) e =
     (case map_of e (fst kv) of None \<Rightarrow> False | Some v' \<Rightarrow> py_eq (snd kv) v' \<and> py_eq_items d e)"

text \<open>
  \<^verbatim>\<open>x in c\<close>: membership in a list by \<^verbatim>\<open>==\<close>, substring test in a string (for a string \<open>x\<close>
  only), key test in a dictionary (for a hashable \<open>x\<close> only); any other container is not
  iterable.
\<close>

fun py_in :: "json \<Rightarrow> json \<Rightarrow> py_error + bool" where
  "py_in x (JList ys) = Inr (list_ex (py_eq x) ys)"
| "py_in x (JStr s) = (case x of JStr t \<Rightarrow> Inr (sublist t s) | _ \<Rightarrow> Inl TypeError)"
| "py_in x (JObj d) =
     (case x of
        JList _ \<Rightarrow> Inl TypeError
      | JObj _ \<Rightarrow> Inl TypeError
      | JStr k \<Rightarrow> Inr (map_of d k \<noteq> None)
      | _ \<Rightarrow> Inr False)"
| "py_in x _ = Inl TypeError"

datatype transcript = Transcript "message list"

datatype agent_run =
  AgentRun (transcripts: "transcript list") (metadata: "(string \<times> json) list")

text \<open>
  \<^verbatim>\<open>load_gso_report\<close>. The directory \<open>logs_dir\<close> is the list of its instance
  sub-directories with the decoded content of their \<^verbatim>\<open>report.json\<close>; a missing or
  unreadable file has no entry. Building the path raises unless the instance identifier is
  a string; every exception after that is caught and gives the empty dictionary.
\<close>

definition load_gso_report :: "(string \<times> json) list \<Rightarrow> json \<Rightarrow> py_error + json" where
  "load_gso_report logs_dir instance_id =
     (case instance_id of
        JStr iid \<Rightarrow>
          (case map_of logs_dir iid of
             None \<Rightarrow> Inr (JObj [])
           | Some report \<Rightarrow>
               (case report of JObj r \<Rightarrow> Inr (dict_get r iid (JObj [])) | _ \<Rightarrow> Inr (JObj [])))
      | _ \<Rightarrow> Inl TypeError)"

text \<open>Lines 248--273: the metadata taken from the trajectory record \<open>t\<close>.\<close>

definition trajectory_metadata :: "(string \<times> json) list \<Rightarrow> json \<Rightarrow> py_error + (string \<times> json) list" where
  "trajectory_metadata t instance_id =
     (let metadata = [(''instance_id'', instance_id)];
          traj_metadata = dict_get t ''metadata'' (JObj [])
      in bindE (if truthy traj_metadata then
                  bindE (py_get traj_metadata ''agent_class'' JNull) (\<lambda>agent_class.
                  bindE (py_get traj_metadata ''llm_config'' (JObj [])) (\<lambda>llm_config.
                  bindE (py_get llm_config ''model'' JNull) (\<lambda>model.
                    Inr (AList.update ''llm_model'' model
                          (AList.update ''agent_class'' agent_class metadata)))))
                else Inr metadata) (\<lambda>metadata.
         let metrics = dict_get t ''metrics'' (JObj []);
             metadata = (if truthy metrics then AList.update ''metrics'' metrics metadata
                         else metadata);
             instance_info = dict_get t ''instance'' (JObj [])
         in bindE (if truthy instance_info then
                     bindE (py_get instance_info ''repo'' JNull) (\<lambda>repo.
                     bindE (py_get instance_info ''api'' JNull) (\<lambda>api.
                       Inr (AList.update ''api'' api (AList.update ''repo'' repo metadata))))
                   else Inr metadata) (\<lambda>metadata.
            let test_result = dict_get t ''test_result'' (JObj [])
            in if truthy test_result then
                 bindE (py_get test_result ''git_patch'' JNull) (\<lambda>git_patch.
                   Inr (AList.update ''has_patch'' (JBool (truthy git_patch)) metadata))
               else Inr metadata)))"

text \<open>
  Lines 276--293: the scores from the instance report. \<open>logs_dir\<close> is \<open>None\<close> when the caller
  gives no directory.
\<close>

definition instance_scores ::
  "(string \<times> json) list option \<Rightarrow> json \<Rightarrow> py_error + (string \<times> json) list" where
  "instance_scores logs_dir instance_id =
     (let scores = [(''status'', JStr ''unknown'')]
      in case logs_dir of
           None \<Rightarrow> Inr scores
         | Some dir \<Rightarrow>
             bindE (load_gso_report dir instance_id) (\<lambda>instance_report.
               if truthy instance_report then
                 bindE (py_get instance_report ''test_passed'' (JBool False)) (\<lambda>test_passed.
                 bindE (py_get instance_report ''opt_base'' (JBool False)) (\<lambda>opt_base.
                 bindE (py_get instance_report ''opt_commit'' (JBool False)) (\<lambda>opt_commit.
                 bindE (py_get instance_report ''opt_main'' (JBool False)) (\<lambda>opt_main.
                 bindE (py_get instance_report ''patch_successfully_applied'' (JBool False)) (\<lambda>patch_applied.
                 let scores = [(''test_passed'', test_passed), (''opt_base'', opt_base),
                               (''opt_commit'', opt_commit), (''opt_main'', opt_main),
                               (''patch_applied'', patch_applied)]
                 in bindE (py_get instance_report ''opt_stats'' (JObj [])) (\<lambda>opt_stats.
                      if truthy opt_stats then
                        bindE (py_get opt_stats ''gm_speedup_patch_base'' JNull) (\<lambda>base.
                        bindE (py_get opt_stats ''gm_speedup_patch_commit'' JNull) (\<lambda>commit.
                          Inr (AList.update ''gm_speedup_patch_commit'' commit
                                (AList.update ''gm_speedup_patch_base'' base scores))))
                      else Inr scores))))))
               else Inr scores))"

text \<open>
  Lines 296--307: the status from the run-level report, an \<^verbatim>\<open>if\<close>/\<^verbatim>\<open>elif\<close> chain; a test is
  evaluated only when all the tests before it were false.
\<close>

definition run_report_status ::
  "json option \<Rightarrow> json \<Rightarrow> (string \<times> json) list \<Rightarrow> py_error + (string \<times> json) list" where
  "run_report_status run_report instance_id scores =
     (case run_report of
        None \<Rightarrow> Inr scores
      | Some report \<Rightarrow>
          if truthy report then
            bindE (py_get report ''instance_sets'' (JObj [])) (\<lambda>instance_sets.
            bindE (py_get instance_sets ''passed_ids'' (JList [])) (\<lambda>passed_ids.
            bindE (py_in instance_id passed_ids) (\<lambda>passed.
              if passed then Inr (AList.update ''status'' (JStr ''passed'') scores)
              else
            bindE (py_get instance_sets ''opt_base_ids'' (JList [])) (\<lambda>opt_base_ids.
            bindE (py_in instance_id opt_base_ids) (\<lambda>opt_base.
              if opt_base then Inr (AList.update ''status'' (JStr ''opt_base'') scores)
              else
            bindE (py_get instance_sets ''test_failed_ids'' (JList [])) (\<lambda>test_failed_ids.
            bindE (py_in instance_id test_failed_ids) (\<lambda>test_failed.
              if test_failed then Inr (AList.update ''status'' (JStr ''test_failed'') scores)
              else
            bindE (py_get instance_sets ''patch_failed_ids'' (JList [])) (\<lambda>patch_failed_ids.
            bindE (py_in instance_id patch_failed_ids) (\<lambda>patch_failed.
              if patch_failed then Inr (AList.update ''status'' (JStr ''patch_failed'') scores)
              else
            bindE (py_get instance_sets ''error_ids'' (JList [])) (\<lambda>error_ids.
            bindE (py_in instance_id error_ids) (\<lambda>error.
              if error then Inr (AList.update ''status'' (JStr ''error'') scores)
              else Inr scores)))))))))))
          else Inr scores)"

text \<open>
  \<^verbatim>\<open>build_agent_run\<close>. Iterating over a history that is not a list raises: a number, a
  boolean is not iterable, and the items of a string or of a dictionary are strings, which
  have no \<^verbatim>\<open>get\<close>. \<open>model_name\<close> is an optional string.
\<close>

definition build_agent_run ::
  "(json \<Rightarrow> string) \<Rightarrow> json \<Rightarrow> (string \<times> json) list option \<Rightarrow> string option \<Rightarrow> json option
     \<Rightarrow> py_error + agent_run option" where
  "build_agent_run ps traj_data logs_dir model_name run_report =
     (case traj_data of
        JObj t \<Rightarrow>
          (let instance_id = dict_get t ''instance_id'' JNull
           in if \<not> truthy instance_id then Inr None
              else
                (let history = dict_get t ''history'' (JList [])
                 in if \<not> truthy history then Inr None
                    else
                      bindE (case history of
                               JList events \<Rightarrow> convert_openhands_history_to_messages ps events
                             | JStr _ \<Rightarrow> Inl AttributeError
                             | JObj _ \<Rightarrow> Inl AttributeError
                             | _ \<Rightarrow> Inl TypeError) (\<lambda>msgs.
                      if msgs = [] then Inr None
                      else
                        bindE (trajectory_metadata t instance_id) (\<lambda>metadata.
                        bindE (instance_scores logs_dir instance_id) (\<lambda>scores.
                        bindE (run_report_status run_report instance_id scores) (\<lambda>scores.
                          let metadata = AList.update ''scores'' (JObj scores) metadata;
                              metadata = (case model_name of
                                            None \<Rightarrow> metadata
                                          | Some name \<Rightarrow>
                                              if name \<noteq> [] then
                                                AList.update ''model_name'' (JStr name) metadata
                                              else metadata);
                              metadata = filter (\<lambda>kv. snd kv \<noteq> JNull) metadata
                          in Inr (Some (AgentRun [Transcript msgs] metadata))))))))
      | _ \<Rightarrow> Inl AttributeError)"

text \<open>
  Lines 374--391 of \<^verbatim>\<open>ingest_trajectories\<close>: the loop that calls \<^verbatim>\<open>build_agent_run\<close> once
  per line of the trajectory file. A line is \<open>None\<close> when it is blank or does not decode;
  an exception of \<^verbatim>\<open>build_agent_run\<close> is caught and the line skipped.
\<close>

fun parse_trajectories ::
  "(json \<Rightarrow> string) \<Rightarrow> (string \<times> json) list option \<Rightarrow> string option \<Rightarrow> json option
     \<Rightarrow> agent_run list \<Rightarrow> json option list \<Rightarrow> agent_run list" where
  "parse_trajectories ps logs_dir model_name run_report agent_runs [] = agent_runs"
| "parse_trajectories ps logs_dir model_name run_report agent_runs (line # lines) =
     (case line of
        None \<Rightarrow> parse_trajectories ps logs_dir model_name run_report agent_runs lines
      | Some traj_data \<Rightarrow>
          (case build_agent_run ps traj_data logs_dir model_name run_report of
             Inr (Some run) \<Rightarrow>
               parse_trajectories ps logs_dir model_name run_report (agent_runs @ [run]) lines
           | _ \<Rightarrow> parse_trajectories ps logs_dir model_name run_report agent_runs lines))"

section \<open>Notions used to state the properties\<close>

text \<open>
  The closed examples below render strings only, for which \<open>py_str\<close> does not consult its
  parameter; they pass \<open>blank_str\<close> for it.
\<close>

definition blank_str :: "json \<Rightarrow> string" where
  "blank_str v = []"

text \<open>
  The guards of lines 58, 62, 69 and 177 all fail for the event: it reaches the test for
  an observation on line 185. An observation event, which has no \<^verbatim>\<open>action\<close>, is such an event.
\<close>

definition reaches_observation_test :: "(string \<times> json) list \<Rightarrow> bool" where
  "reaches_observation_test ev =
     (let source = dict_get ev ''source'' (JStr []);
          action = dict_get ev ''action'' JNull
      in action \<noteq> JStr ''system''
         \<and> \<not> (source = JStr ''user'' \<and> action = JStr ''message'')
         \<and> \<not> (source = JStr ''agent'' \<and> truthy action \<and> action \<noteq> JStr ''message'')
         \<and> \<not> (source = JStr ''agent'' \<and> action = JStr ''message''))"

text \<open>
  The identifiers a message carries: the \<open>tool_call_id\<close> of a tool message, and the
  identifiers of the tool calls of an assistant message.
\<close>

fun tool_message_ids :: "message \<Rightarrow> string list" where
  "tool_message_ids (ToolMessage c cid f) = [cid]"
| "tool_message_ids _ = []"

fun invocation_ids :: "message \<Rightarrow> string list" where
  "invocation_ids (AssistantMessage c (Some tcs)) = map tc_id tcs"
| "invocation_ids _ = []"

definition is_tool_message :: "message \<Rightarrow> bool" where
  "is_tool_message m = (tool_message_ids m \<noteq> [])"

definition carries_invocation :: "message \<Rightarrow> bool" where
  "carries_invocation m = (invocation_ids m \<noteq> [])"

definition inv_ids :: "message list \<Rightarrow> string list" where
  "inv_ids ms = concat (map invocation_ids ms)"

definition tool_ids :: "message list \<Rightarrow> string list" where
  "tool_ids ms = concat (map tool_message_ids ms)"

definition earlier_invoked :: "message list \<Rightarrow> bool" where
  "earlier_invoked ms =
     (\<forall>j<length ms. set (tool_message_ids (ms ! j)) \<subseteq> set (inv_ids (take j ms)))"

definition conv_inv :: "conv_state \<Rightarrow> bool" where
  "conv_inv st =
     (0 < call_counter st
      \<and> inv_ids (messages st) = map call_id_of [1..<call_counter st]
      \<and> (\<forall>m\<in>set (messages st). length (invocation_ids m) \<le> 1)
      \<and> distinct (tool_ids (messages st))
      \<and> earlier_invoked (messages st)
      \<and> (case pending_tool_call st of
            None \<Rightarrow> True
          | Some p \<Rightarrow> snd p \<in> set (inv_ids (messages st)) \<and> snd p \<notin> set (tool_ids (messages st))))"

text \<open>
  The status override in the words of the specification: the five named identifier sets
  in their order of precedence with their labels; membership of the instance identifier
  in a named set of the run-level report (a set that is missing is empty); and the scores
  with \<open>status\<close> set to the label of the first set that contains the identifier, or
  unchanged when none does.
\<close>


definition status_precedence :: "(string \<times> string) list" where
  "status_precedence =
     [(''passed_ids'', ''passed''), (''opt_base_ids'', ''opt_base''),
      (''test_failed_ids'', ''test_failed''), (''patch_failed_ids'', ''patch_failed''),
      (''error_ids'', ''error'')]"

definition report_member :: "json \<Rightarrow> json \<Rightarrow> string \<Rightarrow> bool" where
  "report_member report instance_id set_name =
     (case report of
        JObj r \<Rightarrow>
          (case dict_get r ''instance_sets'' (JObj []) of
             JObj sets \<Rightarrow> py_in instance_id (dict_get sets set_name (JList [])) = Inr True
           | _ \<Rightarrow> False)
      | _ \<Rightarrow> False)"

definition status_by_precedence ::
  "(string \<Rightarrow> bool) \<Rightarrow> (string \<times> json) list \<Rightarrow> (string \<times> json) list" where
  "status_by_precedence member scores =
     (case find (\<lambda>p. member (fst p)) status_precedence of
        None \<Rightarrow> scores
      | Some p \<Rightarrow> AList.update ''status'' (JStr (snd p)) scores)"

section \<open>The constructor calls\<close>

lemma new_message_simps:
  "new_user_message (JStr s) = Inr (UserMessage (JStr s))"
  "new_assistant_message (JStr s) tcs = Inr (AssistantMessage (JStr s) tcs)"
  "new_tool_message (JStr s) cid (JStr f) = Inr (ToolMessage (JStr s) cid (JStr f))"
  "new_tool_call cid (JStr f) (JObj d) v
     = Inr (ToolCall cid (JStr f) (JObj d) (ToolCallContent ''markdown'' v))"
  by (simp_all add: new_user_message_def new_assistant_message_def new_tool_message_def
        new_tool_call_def)

lemma new_user_message_Inr:
  "new_user_message c = Inr m \<Longrightarrow> m = UserMessage c \<and> (\<exists>s. c = JStr s)"
  by (cases c) (simp_all add: new_user_message_def)

lemma new_assistant_message_Inr:
  "new_assistant_message c tcs = Inr m \<Longrightarrow> m = AssistantMessage c tcs \<and> (\<exists>s. c = JStr s)"
  by (cases c) (simp_all add: new_assistant_message_def)

lemma new_tool_message_Inr:
  "new_tool_message c cid f = Inr m \<Longrightarrow> m = ToolMessage c cid f \<and> (\<exists>s. c = JStr s)"
  by (cases c; cases f) (simp_all add: new_tool_message_def)

lemma new_tool_call_Inr:
  "new_tool_call cid f a v = Inr tc \<Longrightarrow>
     tc = ToolCall cid f a (ToolCallContent ''markdown'' v) \<and> (\<exists>g. f = JStr g)"
  by (cases f; cases a) (simp_all add: new_tool_call_def)

lemma bindE_Inr: "bindE m f = Inr y \<Longrightarrow> \<exists>x. m = Inr x \<and> f x = Inr y"
  by (cases m) (simp_all add: bindE_def)

lemma bindE_simps:
  "bindE (Inr x) f = f x" "bindE (Inl e) f = Inl e"
  by (simp_all add: bindE_def)

lemma emit_tool_call_Inr:
  assumes "emit_tool_call st thought func arguments view_content = Inr st'"
  shows "st' = st\<lparr>messages := messages st @
                  [AssistantMessage thought
                     (Some [ToolCall (call_id_of (call_counter st)) func arguments
                              (ToolCallContent ''markdown'' view_content)])],
                pending_tool_call := Some (func, call_id_of (call_counter st)),
                call_counter := call_counter st + 1\<rparr>
       \<and> (\<exists>s. thought = JStr s) \<and> (\<exists>g. func = JStr g)"
proof -
  from assms obtain tc m
    where tc: "new_tool_call (call_id_of (call_counter st)) func arguments view_content = Inr tc"
      and m: "new_assistant_message thought (Some [tc]) = Inr m"
      and st': "st' = st\<lparr>messages := messages st @ [m],
                pending_tool_call := Some (func, call_id_of (call_counter st)),
                call_counter := call_counter st + 1\<rparr>"
    unfolding emit_tool_call_def Let_def
    by (auto dest!: bindE_Inr)
  from new_tool_call_Inr [OF tc] new_assistant_message_Inr [OF m] st'
  show ?thesis by simp
qed

section \<open>Evaluation of the converter on closed histories\<close>

lemmas conv_defs = convert_openhands_history_to_messages_def init_state_def step_def
  user_message_def agent_action_def agent_message_def observation_result_def
  observation_content_def emit_tool_call_def new_tool_call_def new_user_message_def
  new_assistant_message_def new_tool_message_def write_preview_def bindE_def py_get_def
  dict_get_def py_or_def py_str_def call_id_of_def Let_def

lemma string_of_nat_1: "string_of_nat (Suc 0) = ''1''"
  by (simp add: string_of_nat.simps [of "Suc 0"] digit_char_def)

text \<open>
  C6. The history of a user message, a \<^verbatim>\<open>run\<close> action and its observation converts to
  exactly three messages: the user message, the assistant message with the thought and the
  tool call \<open>bash\<close> / \<open>call_1\<close> / \<open>{command: pytest}\<close>, and the tool message with the result
  for \<open>call_1\<close> and \<open>bash\<close>.
\<close>

theorem convert_example_history:
  "convert_openhands_history_to_messages ps
     [JObj [(''source'', JStr ''user''), (''action'', JStr ''message''),
            (''args'', JObj [(''content'', JStr ''fix bug'')])],
      JObj [(''source'', JStr ''agent''), (''action'', JStr ''run''),
            (''args'', JObj [(''thought'', JStr ''run tests''), (''command'', JStr ''pytest'')])],
      JObj [(''observation'', JStr ''run''), (''content'', JStr ''2 passed'')]]
   = Inr [UserMessage (JStr ''fix bug''),
          AssistantMessage (JStr ''run tests'')
            (Some [ToolCall ''call_1'' (JStr ''bash'') (JObj [(''command'', JStr ''pytest'')])
                     (ToolCallContent ''markdown'' ''```bash\<newline>pytest\<newline>```'')]),
          ToolMessage (JStr ''2 passed'') ''call_1'' (JStr ''bash'')]"
  by (simp add: conv_defs string_of_nat_1)

section \<open>The call identifiers are pairwise different\<close>

lemma digit_char_inj: "a < 10 \<Longrightarrow> b < 10 \<Longrightarrow> digit_char a = digit_char b \<Longrightarrow> a = b"
proof -
  assume a: "a < 10" and b: "b < 10" and e: "digit_char a = digit_char b"
  have d: "distinct ''0123456789''" by simp
  have "length ''0123456789'' = 10" by simp
  with a b d e show "a = b"
    unfolding digit_char_def by (metis nth_eq_iff_index_eq)
qed

lemma string_of_nat_nonempty: "string_of_nat n \<noteq> []"
  by (subst string_of_nat.simps) simp

lemma string_of_nat_inj: "string_of_nat n = string_of_nat m \<Longrightarrow> n = m"
proof (induction n arbitrary: m rule: string_of_nat.induct)
  case (1 n)
  show ?case
  proof (cases "n < 10")
    case True
    note n = this
    show ?thesis
    proof (cases "m < 10")
      case True
      with n "1.prems" show ?thesis
        by (simp add: string_of_nat.simps [of n] string_of_nat.simps [of m] digit_char_inj)
    next
      case False
      with n "1.prems" show ?thesis
        by (simp add: string_of_nat.simps [of n] string_of_nat.simps [of m] string_of_nat_nonempty string_of_nat_nonempty [THEN not_sym])
    qed
  next
    case False
    note n = this
    show ?thesis
    proof (cases "m < 10")
      case True
      with n "1.prems" show ?thesis
        by (simp add: string_of_nat.simps [of n] string_of_nat.simps [of m] string_of_nat_nonempty string_of_nat_nonempty [THEN not_sym])
    next
      case False
      with n "1.prems" have e: "string_of_nat (n div 10) = string_of_nat (m div 10)"
        and d: "digit_char (n mod 10) = digit_char (m mod 10)"
        by (simp_all add: string_of_nat.simps [of n] string_of_nat.simps [of m])
      from "1.IH" [OF n e] have q: "n div 10 = m div 10" .
      from d have r: "n mod 10 = m mod 10" by (simp add: digit_char_inj)
      from q r show ?thesis by (metis div_mult_mod_eq)
    qed
  qed
qed

lemma call_id_of_inj: "call_id_of n = call_id_of m \<Longrightarrow> n = m"
  by (simp add: call_id_of_def string_of_nat_inj)

lemma distinct_call_ids: "distinct (map call_id_of [a..<b])"
  by (simp add: distinct_map inj_on_def call_id_of_inj)

lemma inv_ids_snoc: "inv_ids (ms @ [m]) = inv_ids ms @ invocation_ids m"
  by (simp add: inv_ids_def)

lemma tool_ids_snoc: "tool_ids (ms @ [m]) = tool_ids ms @ tool_message_ids m"
  by (simp add: tool_ids_def)

lemma inv_ids_take: "set (inv_ids (take j ms)) \<subseteq> set (inv_ids ms)"
  by (auto simp add: inv_ids_def dest: in_set_takeD)

lemma earlier_invoked_snoc:
  "earlier_invoked (ms @ [m]) =
     (earlier_invoked ms \<and> set (tool_message_ids m) \<subseteq> set (inv_ids ms))"
  by (auto simp add: earlier_invoked_def nth_append less_Suc_eq)

lemma tool_ids_subset:
  assumes "earlier_invoked ms"
  shows "set (tool_ids ms) \<subseteq> set (inv_ids ms)"
proof
  fix x assume "x \<in> set (tool_ids ms)"
  then obtain m where "m \<in> set ms" and xm: "x \<in> set (tool_message_ids m)"
    by (auto simp add: tool_ids_def)
  then obtain j where j: "j < length ms" and x: "x \<in> set (tool_message_ids (ms ! j))"
    by (metis in_set_conv_nth)
  with assms have "x \<in> set (inv_ids (take j ms))"
    by (auto simp add: earlier_invoked_def)
  with inv_ids_take show "x \<in> set (inv_ids ms)" by blast
qed

lemma conv_inv_init: "conv_inv init_state"
  by (simp add: conv_inv_def init_state_def inv_ids_def tool_ids_def earlier_invoked_def)

lemma conv_inv_plain:
  assumes "conv_inv st" and "invocation_ids m = []" and "tool_message_ids m = []"
    and "p = pending_tool_call st \<or> p = None"
  shows "conv_inv (st\<lparr>messages := messages st @ [m], pending_tool_call := p\<rparr>)"
  using assms
  by (auto simp add: conv_inv_def inv_ids_snoc tool_ids_snoc earlier_invoked_snoc
           split: option.splits)

lemma conv_inv_clear:
  assumes "conv_inv st"
  shows "conv_inv (st\<lparr>pending_tool_call := None\<rparr>)"
  using assms by (simp add: conv_inv_def)

lemma conv_inv_emit:
  assumes "conv_inv st"
    and "emit_tool_call st thought func arguments view_content = Inr st'"
  shows "conv_inv st'"
proof -
  let ?n = "call_counter st"
  from assms(1) have n: "0 < ?n"
    and ids: "inv_ids (messages st) = map call_id_of [1..<?n]"
    and early: "earlier_invoked (messages st)"
    by (simp_all add: conv_inv_def)
  have fresh: "call_id_of ?n \<notin> set (inv_ids (messages st))"
    unfolding ids by (auto dest: call_id_of_inj)
  with tool_ids_subset [OF early]
  have fresh': "call_id_of ?n \<notin> set (tool_ids (messages st))"
    by blast
  have up: "[1..<Suc ?n] = [1..<?n] @ [?n]" using n by simp
  from assms(1) fresh fresh' n show ?thesis
    unfolding emit_tool_call_Inr [OF assms(2), THEN conjunct1]
    by (clarsimp simp add: conv_inv_def inv_ids_snoc tool_ids_snoc earlier_invoked_snoc up)
qed

lemma conv_inv_tool:
  assumes "conv_inv st" and "pending_tool_call st = Some (f, cid)"
  shows "conv_inv (st\<lparr>messages := messages st @ [ToolMessage c cid f], pending_tool_call := None\<rparr>)"
  using assms
  by (clarsimp simp add: conv_inv_def inv_ids_snoc tool_ids_snoc earlier_invoked_snoc)

section \<open>The invariant of the loop\<close>

lemma agent_action_cases:
  assumes "agent_action ps st action args = Inr st'"
  shows "(\<exists>t f a v. emit_tool_call st t f a v = Inr st')
       \<or> (\<exists>c. st' = st\<lparr>messages := messages st @ [AssistantMessage c None], pending_tool_call := None\<rparr>)"
proof (cases args)
  case (JObj a)
  with assms show ?thesis
    unfolding agent_action_def Let_def
    by (simp add: new_message_simps bindE_simps split: if_splits)
       (blast dest: bindE_Inr)+
qed (use assms in \<open>simp_all add: agent_action_def\<close>)

lemma user_message_inv:
  assumes "conv_inv st" and "user_message st args content = Inr st'"
  shows "conv_inv st'"
proof -
  from assms(2) have "st' = st \<or> (\<exists>c. st' = st\<lparr>messages := messages st @ [UserMessage c]\<rparr>)"
    by (auto simp add: user_message_def Let_def split: if_splits
          dest!: bindE_Inr new_user_message_Inr)
  then show ?thesis
  proof
    assume "st' = st" with assms(1) show ?thesis by simp
  next
    assume "\<exists>c. st' = st\<lparr>messages := messages st @ [UserMessage c]\<rparr>"
    then obtain c where "st' = st\<lparr>messages := messages st @ [UserMessage c]\<rparr>" ..
    with conv_inv_plain [OF assms(1), of "UserMessage c" "pending_tool_call st"]
    show ?thesis by simp
  qed
qed

lemma agent_message_inv:
  assumes "conv_inv st" and "agent_message st args content = Inr st'"
  shows "conv_inv st'"
proof -
  from assms(2) have "st' = st\<lparr>pending_tool_call := None\<rparr>
      \<or> (\<exists>c. st' = st\<lparr>messages := messages st @ [AssistantMessage c None], pending_tool_call := None\<rparr>)"
    by (auto simp add: agent_message_def Let_def bindE_simps split: if_splits
          dest!: bindE_Inr new_assistant_message_Inr)
  then show ?thesis
  proof
    assume "st' = st\<lparr>pending_tool_call := None\<rparr>"
    with conv_inv_clear [OF assms(1)] show ?thesis by simp
  next
    assume "\<exists>c. st' = st\<lparr>messages := messages st @ [AssistantMessage c None], pending_tool_call := None\<rparr>"
    then obtain c where "st' = st\<lparr>messages := messages st @ [AssistantMessage c None], pending_tool_call := None\<rparr>" ..
    with conv_inv_plain [OF assms(1), of "AssistantMessage c None" None]
    show ?thesis by simp
  qed
qed

lemma agent_action_inv:
  assumes "conv_inv st" and "agent_action ps st action args = Inr st'"
  shows "conv_inv st'"
  using agent_action_cases [OF assms(2)]
proof
  assume "\<exists>t f a v. emit_tool_call st t f a v = Inr st'"
  with conv_inv_emit [OF assms(1)] show ?thesis by blast
next
  assume "\<exists>c. st' = st\<lparr>messages := messages st @ [AssistantMessage c None], pending_tool_call := None\<rparr>"
  then obtain c where "st' = st\<lparr>messages := messages st @ [AssistantMessage c None], pending_tool_call := None\<rparr>" ..
  with conv_inv_plain [OF assms(1), of "AssistantMessage c None" None]
  show ?thesis by simp
qed

lemma observation_result_inv:
  assumes "conv_inv st" and "pending_tool_call st = Some p"
    and "observation_result ps st p ev = Inr st'"
  shows "conv_inv st'"
proof -
  from assms(3) obtain c where
    "st' = st\<lparr>messages := messages st @ [ToolMessage c (snd p) (fst p)], pending_tool_call := None\<rparr>"
    by (auto simp add: observation_result_def Let_def dest!: bindE_Inr new_tool_message_Inr)
  with conv_inv_tool [OF assms(1), of "fst p" "snd p" c] assms(2) show ?thesis by simp
qed

lemma step_cases:
  assumes "step ps st event = Inr st'"
  shows "st' = st
       \<or> (\<exists>a c. user_message st a c = Inr st')
       \<or> (\<exists>act a. agent_action ps st act a = Inr st')
       \<or> (\<exists>a c. agent_message st a c = Inr st')
       \<or> (\<exists>p ev. pending_tool_call st = Some p \<and> observation_result ps st p ev = Inr st')"
proof (cases event)
  case (JObj ev)
  let ?source = "dict_get ev ''source'' (JStr [])"
  let ?action = "dict_get ev ''action'' JNull"
  let ?args = "dict_get ev ''args'' (JObj [])"
  let ?content = "py_or (dict_get ev ''content'' JNull) (dict_get ev ''message'' (JStr []))"
  let ?g1 = "?action = JStr ''system''"
  let ?g2 = "?source = JStr ''user'' \<and> ?action = JStr ''message''"
  let ?g3 = "?source = JStr ''agent'' \<and> truthy ?action \<and> ?action \<noteq> JStr ''message''"
  let ?g4 = "?source = JStr ''agent'' \<and> ?action = JStr ''message''"
  let ?g5 = "truthy (dict_get ev ''observation'' JNull) \<and> pending_tool_call st \<noteq> None"
  from assms JObj have s:
    "(if ?g1 then Inr st
      else if ?g2 then user_message st ?args ?content
      else if ?g3 then agent_action ps st ?action ?args
      else if ?g4 then agent_message st ?args ?content
      else if ?g5 then observation_result ps st (the (pending_tool_call st)) ev
      else Inr st) = Inr st'"
    by (simp only: step_def Let_def json.case)
  show ?thesis
  proof (cases ?g1)
    case True
    with s show ?thesis by simp
  next
    case n1: False
    show ?thesis
    proof (cases ?g2)
      case True
      with s n1 have "user_message st ?args ?content = Inr st'" by simp
      then show ?thesis by blast
    next
      case n2: False
      show ?thesis
      proof (cases ?g3)
        case True
        with s n1 n2 have "agent_action ps st ?action ?args = Inr st'"
          by simp
        then show ?thesis by blast
      next
        case n3: False
        show ?thesis
        proof (cases ?g4)
          case True
          with s n1 n2 n3 have "agent_message st ?args ?content = Inr st'"
            by simp
          then show ?thesis by blast
        next
          case n4: False
          show ?thesis
          proof (cases ?g5)
            case True
            with s n1 n2 n3 n4
            have o: "observation_result ps st (the (pending_tool_call st)) ev = Inr st'"
              by simp
            from True obtain p where "pending_tool_call st = Some p" by blast
            with o show ?thesis by auto
          next
            case False
            with s n1 n2 n3 n4 have "Inr st = (Inr st' :: py_error + conv_state)"
              by (auto split: if_splits)
            then show ?thesis by simp
          qed
        qed
      qed
    qed
  qed
qed (use assms in \<open>simp_all add: step_def\<close>)

lemma step_inv:
  assumes "conv_inv st" and "step ps st event = Inr st'"
  shows "conv_inv st'"
  using step_cases [OF assms(2)] assms(1)
  by (elim disjE exE conjE)
     (simp, erule (1) user_message_inv, erule (1) agent_action_inv,
      erule (1) agent_message_inv, erule (2) observation_result_inv)

lemma run_events_inv:
  assumes "conv_inv st" and "run_events ps st events = Inr st'"
  shows "conv_inv st'"
  using assms
proof (induction events arbitrary: st)
  case Nil
  then show ?case by simp
next
  case (Cons event events)
  then show ?case
    by (auto split: sum.splits dest: step_inv)
qed


section \<open>Tool messages answer earlier tool calls\<close>

lemma length_concat_le1:
  assumes "\<forall>m\<in>set ms. length (f m) \<le> 1"
  shows "length (concat (map f ms)) = length (filter (\<lambda>m. f m \<noteq> []) ms)"
  using assms
proof (induction ms)
  case Nil
  then show ?case by simp
next
  case (Cons m ms)
  then have "length (f m) = (if f m = [] then 0 else 1)"
    by (cases "f m") auto
  with Cons show ?case by simp
qed

lemma tool_message_ids_le1: "length (tool_message_ids m) \<le> 1"
  by (cases m) simp_all

lemma concat_distinct_index:
  assumes "distinct (concat (map f ms))"
    and "i < length ms" and "k < length ms"
    and "x \<in> set (f (ms ! i))" and "x \<in> set (f (ms ! k))"
  shows "i = k"
  using assms
proof (induction ms arbitrary: i k)
  case Nil
  then show ?case by simp
next
  case (Cons m ms)
  from Cons.prems(1) have d: "distinct (concat (map f ms))"
    and dj: "set (f m) \<inter> set (concat (map f ms)) = {}"
    by simp_all
  show ?case
  proof (cases i)
    case 0
    note i0 = this
    show ?thesis
    proof (cases k)
      case 0
      with i0 show ?thesis by simp
    next
      case (Suc k')
      with Cons.prems(3,5) have "x \<in> set (concat (map f ms))" by auto
      with i0 Cons.prems(4) dj show ?thesis by auto
    qed
  next
    case (Suc i')
    note iS = this
    show ?thesis
    proof (cases k)
      case 0
      from iS Cons.prems(2,4) have "x \<in> set (concat (map f ms))" by auto
      with 0 Cons.prems(5) dj show ?thesis by auto
    next
      case (Suc k')
      with iS Cons.prems Cons.IH [OF d, of i' k'] show ?thesis by simp
    qed
  qed
qed

lemma conv_inv_correlated:
  assumes "conv_inv st"
  shows "length (filter is_tool_message (messages st))
           \<le> length (filter carries_invocation (messages st))
       \<and> (\<forall>j<length (messages st). \<forall>c cid f. messages st ! j = ToolMessage c cid f \<longrightarrow>
            (\<exists>i<j. invocation_ids (messages st ! i) = [cid])
          \<and> (\<forall>i<length (messages st). \<forall>k<length (messages st).
                cid \<in> set (invocation_ids (messages st ! i)) \<longrightarrow>
                cid \<in> set (invocation_ids (messages st ! k)) \<longrightarrow> i = k)
          \<and> (\<forall>k<length (messages st). \<forall>c' f'. messages st ! k = ToolMessage c' cid f' \<longrightarrow> k = j))
       \<and> inv_ids (messages st)
           = map call_id_of [1..<Suc (length (filter carries_invocation (messages st)))]
       \<and> distinct (inv_ids (messages st))"
proof -
  let ?ms = "messages st"
  let ?n = "call_counter st"
  from assms have n: "0 < ?n"
    and ids: "inv_ids ?ms = map call_id_of [1..<?n]"
    and le1: "\<forall>m\<in>set ?ms. length (invocation_ids m) \<le> 1"
    and dt: "distinct (tool_ids ?ms)"
    and early: "earlier_invoked ?ms"
    by (simp_all add: conv_inv_def)
  have di: "distinct (inv_ids ?ms)"
    unfolding ids by (rule distinct_call_ids)
  have li: "length (inv_ids ?ms) = length (filter carries_invocation ?ms)"
    unfolding inv_ids_def using length_concat_le1 [OF le1]
    by (simp add: carries_invocation_def [abs_def])
  have lt: "length (tool_ids ?ms) = length (filter is_tool_message ?ms)"
    unfolding tool_ids_def
    using length_concat_le1 [of ?ms tool_message_ids] tool_message_ids_le1
    by (simp add: is_tool_message_def [abs_def])
  have "length (tool_ids ?ms) = card (set (tool_ids ?ms))"
    using dt by (simp add: distinct_card)
  also have "\<dots> \<le> card (set (inv_ids ?ms))"
    using tool_ids_subset [OF early] by (simp add: card_mono)
  also have "\<dots> \<le> length (inv_ids ?ms)"
    by (rule card_length)
  finally have count: "length (filter is_tool_message ?ms) \<le> length (filter carries_invocation ?ms)"
    using li lt by simp
  have cnt: "?n = Suc (length (filter carries_invocation ?ms))"
  proof -
    have "length (inv_ids ?ms) = ?n - 1" unfolding ids by simp
    with n li show ?thesis by simp
  qed
  have corr: "(\<exists>i<j. invocation_ids (?ms ! i) = [cid])
          \<and> (\<forall>i<length ?ms. \<forall>k<length ?ms.
                cid \<in> set (invocation_ids (?ms ! i)) \<longrightarrow>
                cid \<in> set (invocation_ids (?ms ! k)) \<longrightarrow> i = k)
          \<and> (\<forall>k<length ?ms. \<forall>c' f'. ?ms ! k = ToolMessage c' cid f' \<longrightarrow> k = j)"
    if j: "j < length ?ms" and tm: "?ms ! j = ToolMessage c cid f" for j c cid f
  proof (intro conjI allI impI)
    from early j tm have "cid \<in> set (inv_ids (take j ?ms))"
      by (auto simp add: earlier_invoked_def)
    then obtain m where m: "m \<in> set (take j ?ms)" and cm: "cid \<in> set (invocation_ids m)"
      by (auto simp add: inv_ids_def)
    from m obtain i where i: "i < length (take j ?ms)" and mi: "take j ?ms ! i = m"
      by (auto simp add: in_set_conv_nth)
    from i j have ij: "i < j" and il: "i < length ?ms" by simp_all
    from mi ij have e: "?ms ! i = m" by simp
    from il le1 have "length (invocation_ids (?ms ! i)) \<le> 1" by simp
    with cm e have "invocation_ids (?ms ! i) = [cid]"
      by (cases "invocation_ids (?ms ! i)") auto
    with ij show "\<exists>i<j. invocation_ids (?ms ! i) = [cid]" by blast
  next
    fix i k
    assume "i < length ?ms" "k < length ?ms"
      "cid \<in> set (invocation_ids (?ms ! i))" "cid \<in> set (invocation_ids (?ms ! k))"
    with di show "i = k"
      unfolding inv_ids_def by (rule concat_distinct_index)
  next
    fix k c' f'
    assume k: "k < length ?ms" and tk: "?ms ! k = ToolMessage c' cid f'"
    from dt have "distinct (concat (map tool_message_ids ?ms))" by (simp add: tool_ids_def)
    from this k j show "k = j"
      by (rule concat_distinct_index [where x = cid]) (simp_all add: tk tm)
  qed
  from count corr ids cnt di show ?thesis by auto
qed

lemma read_history_eval:
  "convert_openhands_history_to_messages ps
     [JObj [(''source'', JStr ''agent''), (''action'', JStr ''read''),
            (''args'', JObj [(''path'', JStr ''a.py'')])],
      JObj [(''observation'', JStr ''read''), (''content'', JStr ''x = 1'')]]
   = Inr [AssistantMessage (JStr [])
            (Some [ToolCall ''call_1'' (JStr ''read_file'') (JObj [(''path'', JStr ''a.py'')])
                     (ToolCallContent ''markdown'' ''Reading file: `a.py`'')]),
          ToolMessage (JStr ''x = 1'') ''call_1'' (JStr ''read_file'')]"
  by (simp add: conv_defs string_of_nat_1)

text \<open>
  C1. Whenever the conversion of a history returns a message sequence: it has at most as
  many tool messages as assistant messages carrying a tool call; the \<open>tool_call_id\<close> of
  every tool message is the identifier of an assistant message strictly before it, no other
  assistant message of the sequence carries that identifier, and no other tool message
  has it; and the identifiers of the tool calls are, in order, \<open>call_1\<close>, \<open>call_2\<close>, ...,
  all different.
\<close>

theorem tool_messages_correlated:
  assumes "convert_openhands_history_to_messages ps history = Inr ms"
  shows "length (filter is_tool_message ms) \<le> length (filter carries_invocation ms)
       \<and> (\<forall>j<length ms. \<forall>c cid f. ms ! j = ToolMessage c cid f \<longrightarrow>
            (\<exists>i<j. invocation_ids (ms ! i) = [cid])
          \<and> (\<forall>i<length ms. \<forall>k<length ms.
                cid \<in> set (invocation_ids (ms ! i)) \<longrightarrow>
                cid \<in> set (invocation_ids (ms ! k)) \<longrightarrow> i = k)
          \<and> (\<forall>k<length ms. \<forall>c' f'. ms ! k = ToolMessage c' cid f' \<longrightarrow> k = j))
       \<and> inv_ids ms = map call_id_of [1..<Suc (length (filter carries_invocation ms))]
       \<and> distinct (inv_ids ms)"
proof -
  from assms obtain st where r: "run_events ps init_state history = Inr st"
    and ms: "ms = messages st"
    by (auto simp add: convert_openhands_history_to_messages_def split: sum.splits)
  from run_events_inv [OF conv_inv_init r] have "conv_inv st" .
  from conv_inv_correlated [OF this] show ?thesis
    unfolding ms .
qed

theorem tool_messages_correlated_witness:
  "convert_openhands_history_to_messages blank_str
     [JObj [(''source'', JStr ''agent''), (''action'', JStr ''read''),
            (''args'', JObj [(''path'', JStr ''a.py'')])],
      JObj [(''observation'', JStr ''read''), (''content'', JStr ''x = 1'')]]
   = Inr [AssistantMessage (JStr [])
            (Some [ToolCall ''call_1'' (JStr ''read_file'') (JObj [(''path'', JStr ''a.py'')])
                     (ToolCallContent ''markdown'' ''Reading file: `a.py`'')]),
          ToolMessage (JStr ''x = 1'') ''call_1'' (JStr ''read_file'')]
   \<and> inv_ids [AssistantMessage (JStr [])
            (Some [ToolCall ''call_1'' (JStr ''read_file'') (JObj [(''path'', JStr ''a.py'')])
                     (ToolCallContent ''markdown'' ''Reading file: `a.py`'')]),
          ToolMessage (JStr ''x = 1'') ''call_1'' (JStr ''read_file'')] = [''call_1'']
   \<and> length (filter is_tool_message [AssistantMessage (JStr [])
            (Some [ToolCall ''call_1'' (JStr ''read_file'') (JObj [(''path'', JStr ''a.py'')])
                     (ToolCallContent ''markdown'' ''Reading file: `a.py`'')]),
          ToolMessage (JStr ''x = 1'') ''call_1'' (JStr ''read_file'')]) = 1"
proof -
  note t = tool_messages_correlated [OF read_history_eval [of blank_str]]
  from t [THEN conjunct2, THEN conjunct2, THEN conjunct1]
  have a: "inv_ids [AssistantMessage (JStr [])
            (Some [ToolCall ''call_1'' (JStr ''read_file'') (JObj [(''path'', JStr ''a.py'')])
                     (ToolCallContent ''markdown'' ''Reading file: `a.py`'')]),
          ToolMessage (JStr ''x = 1'') ''call_1'' (JStr ''read_file'')] = [''call_1'']"
    by (simp add: carries_invocation_def call_id_of_def string_of_nat_1)
  have b: "length (filter is_tool_message [AssistantMessage (JStr [])
            (Some [ToolCall ''call_1'' (JStr ''read_file'') (JObj [(''path'', JStr ''a.py'')])
                     (ToolCallContent ''markdown'' ''Reading file: `a.py`'')]),
          ToolMessage (JStr ''x = 1'') ''call_1'' (JStr ''read_file'')]) = 1"
    by (simp add: is_tool_message_def)
  from a b read_history_eval [of blank_str] show ?thesis by (intro conjI)
qed

section \<open>The branches of the loop body\<close>

lemma step_agent_message:
  assumes "dict_get ev ''source'' (JStr []) = JStr ''agent''"
    and "dict_get ev ''action'' JNull = JStr ''message''"
  shows "step ps st (JObj ev) =
           agent_message st (dict_get ev ''args'' (JObj []))
             (py_or (dict_get ev ''content'' JNull) (dict_get ev ''message'' (JStr [])))"
  using assms by (simp add: step_def Let_def)

lemma step_user_message:
  assumes "dict_get ev ''source'' (JStr []) = JStr ''user''"
    and "dict_get ev ''action'' JNull = JStr ''message''"
  shows "step ps st (JObj ev) =
           user_message st (dict_get ev ''args'' (JObj []))
             (py_or (dict_get ev ''content'' JNull) (dict_get ev ''message'' (JStr [])))"
  using assms by (simp add: step_def Let_def)

lemma step_agent_action:
  assumes "dict_get ev ''source'' (JStr []) = JStr ''agent''"
    and "truthy (dict_get ev ''action'' JNull)"
    and "dict_get ev ''action'' JNull \<noteq> JStr ''message''"
    and "dict_get ev ''action'' JNull \<noteq> JStr ''system''"
  shows "step ps st (JObj ev) =
           agent_action ps st (dict_get ev ''action'' JNull) (dict_get ev ''args'' (JObj []))"
  using assms by (simp add: step_def Let_def)

lemma step_observation_test:
  assumes "reaches_observation_test ev"
  shows "step ps st (JObj ev) =
           (if truthy (dict_get ev ''observation'' JNull) \<and> pending_tool_call st \<noteq> None
            then observation_result ps st (the (pending_tool_call st)) ev
            else Inr st)"
proof -
  let ?source = "dict_get ev ''source'' (JStr [])"
  let ?action = "dict_get ev ''action'' JNull"
  from assms have g1: "?action \<noteq> JStr ''system''"
    and g2: "\<not> (?source = JStr ''user'' \<and> ?action = JStr ''message'')"
    and g3: "\<not> (?source = JStr ''agent'' \<and> truthy ?action \<and> ?action \<noteq> JStr ''message'')"
    and g4: "\<not> (?source = JStr ''agent'' \<and> ?action = JStr ''message'')"
    unfolding reaches_observation_test_def Let_def by blast+
  show ?thesis
    unfolding step_def Let_def json.case
    by (simp only: g1 g2 g3 g4 if_False)
qed

lemma run_events_append:
  "run_events ps st (xs @ ys) = bindE (run_events ps st xs) (\<lambda>st'. run_events ps st' ys)"
  by (induction xs arbitrary: st) (simp_all add: bindE_def split: sum.splits)

lemma write_preview_long:
  assumes "500 < length c"
  shows "write_preview (JStr c) = Inr (JStr (take 500 c @ ''...''))"
  using assms by (simp add: write_preview_def bindE_def)

section \<open>Empty texts, agent messages, truncation and unanswered observations\<close>

text \<open>
  C2 (as amended). A user message (lines 62--66) or an agent message (lines 177--182)
  whose text is empty appends no message; a text that is a string and not empty, blanks
  included, is appended as it is; the agent message clears the pending call in both cases.
  A tool invocation (an agent action other than \<open>message\<close>, \<open>think\<close> and \<open>finish\<close>) that
  does not raise appends one assistant message with one tool call, whose body is the
  thought, and the empty string when the thought is empty; the call takes its identifier
  from the counter, becomes the pending call, and the counter is incremented. The actions
  \<open>think\<close> and \<open>finish\<close> append their labelled assistant message, also with an empty
  thought, and clear the pending call.
\<close>

theorem empty_text_appends_nothing:
  "(dict_get u ''source'' (JStr []) = JStr ''user''
      \<and> dict_get u ''action'' JNull = JStr ''message''
      \<and> dict_get u ''args'' (JObj []) = JObj ua
      \<and> \<not> truthy (py_or (dict_get ua ''content'' (JStr []))
                 (py_or (dict_get u ''content'' JNull) (dict_get u ''message'' (JStr []))))
    \<longrightarrow> step ps st (JObj u) = Inr st)
   \<and> (dict_get u ''source'' (JStr []) = JStr ''user''
      \<and> dict_get u ''action'' JNull = JStr ''message''
      \<and> dict_get u ''args'' (JObj []) = JObj ua
      \<and> (py_or (dict_get ua ''content'' (JStr []))
                 (py_or (dict_get u ''content'' JNull) (dict_get u ''message'' (JStr [])))) = JStr utxt
      \<and> utxt \<noteq> []
    \<longrightarrow> step ps st (JObj u) = Inr (st\<lparr>messages := messages st @ [UserMessage (JStr utxt)]\<rparr>))
   \<and> (dict_get m ''source'' (JStr []) = JStr ''agent''
      \<and> dict_get m ''action'' JNull = JStr ''message''
      \<and> dict_get m ''args'' (JObj []) = JObj ma
      \<and> \<not> truthy (py_or (dict_get ma ''content'' (JStr []))
                 (py_or (dict_get m ''content'' JNull) (dict_get m ''message'' (JStr []))))
    \<longrightarrow> step ps st (JObj m) = Inr (st\<lparr>pending_tool_call := None\<rparr>))
   \<and> (dict_get m ''source'' (JStr []) = JStr ''agent''
      \<and> dict_get m ''action'' JNull = JStr ''message''
      \<and> dict_get m ''args'' (JObj []) = JObj ma
      \<and> (py_or (dict_get ma ''content'' (JStr []))
                 (py_or (dict_get m ''content'' JNull) (dict_get m ''message'' (JStr [])))) = JStr mtxt
      \<and> mtxt \<noteq> []
    \<longrightarrow> step ps st (JObj m) =
          Inr (st\<lparr>messages := messages st @ [AssistantMessage (JStr mtxt) None],
                  pending_tool_call := None\<rparr>))
   \<and> (dict_get t ''source'' (JStr []) = JStr ''agent''
      \<and> truthy (dict_get t ''action'' JNull)
      \<and> dict_get t ''action'' JNull
           \<notin> {JStr ''system'', JStr ''message'', JStr ''think'', JStr ''finish''}
      \<and> dict_get t ''args'' (JObj []) = JObj ta
      \<and> step ps st (JObj t) = Inr st'
    \<longrightarrow> (\<exists>tc. messages st' = messages st @
             [AssistantMessage
                (if truthy (dict_get ta ''thought'' (JStr []))
                 then dict_get ta ''thought'' (JStr []) else JStr [])
                (Some [tc])]
           \<and> tc_id tc = call_id_of (call_counter st)
           \<and> pending_tool_call st' = Some (tc_function tc, tc_id tc)
           \<and> call_counter st' = call_counter st + 1))
   \<and> (dict_get k ''source'' (JStr []) = JStr ''agent''
      \<and> dict_get k ''action'' JNull = JStr ''think''
      \<and> dict_get k ''args'' (JObj []) = JObj ka
    \<longrightarrow> step ps st (JObj k) =
          Inr (st\<lparr>messages := messages st @
                 [AssistantMessage
                    (JStr (''**Thinking:** '' @
                       py_str ps (if truthy (dict_get ka ''thought'' (JStr []))
                                  then dict_get ka ''thought'' (JStr []) else JStr [])))
                    None],
               pending_tool_call := None\<rparr>))
   \<and> (dict_get f ''source'' (JStr []) = JStr ''agent''
      \<and> dict_get f ''action'' JNull = JStr ''finish''
      \<and> dict_get f ''args'' (JObj []) = JObj fa
    \<longrightarrow> step ps st (JObj f) =
          Inr (st\<lparr>messages := messages st @
                 [AssistantMessage
                    (JStr (''**Finished:** '' @
                       py_str ps (if truthy (dict_get fa ''thought'' (JStr []))
                                  then dict_get fa ''thought'' (JStr []) else JStr [])))
                    None],
               pending_tool_call := None\<rparr>))"
proof (intro conjI impI)
  assume "dict_get u ''source'' (JStr []) = JStr ''user''
      \<and> dict_get u ''action'' JNull = JStr ''message''
      \<and> dict_get u ''args'' (JObj []) = JObj ua
      \<and> \<not> truthy (py_or (dict_get ua ''content'' (JStr []))
                 (py_or (dict_get u ''content'' JNull) (dict_get u ''message'' (JStr []))))"
  then show "step ps st (JObj u) = Inr st"
    by (clarsimp simp add: step_user_message user_message_def bindE_simps py_get_def Let_def)
next
  assume "dict_get u ''source'' (JStr []) = JStr ''user''
      \<and> dict_get u ''action'' JNull = JStr ''message''
      \<and> dict_get u ''args'' (JObj []) = JObj ua
      \<and> (py_or (dict_get ua ''content'' (JStr []))
                 (py_or (dict_get u ''content'' JNull) (dict_get u ''message'' (JStr [])))) = JStr utxt
      \<and> utxt \<noteq> []"
  then show "step ps st (JObj u) = Inr (st\<lparr>messages := messages st @ [UserMessage (JStr utxt)]\<rparr>)"
    by (clarsimp simp add: step_user_message user_message_def bindE_simps py_get_def Let_def
          new_message_simps)
next
  assume "dict_get m ''source'' (JStr []) = JStr ''agent''
      \<and> dict_get m ''action'' JNull = JStr ''message''
      \<and> dict_get m ''args'' (JObj []) = JObj ma
      \<and> \<not> truthy (py_or (dict_get ma ''content'' (JStr []))
                 (py_or (dict_get m ''content'' JNull) (dict_get m ''message'' (JStr []))))"
  then show "step ps st (JObj m) = Inr (st\<lparr>pending_tool_call := None\<rparr>)"
    by (clarsimp simp add: step_agent_message agent_message_def bindE_simps py_get_def Let_def)
next
  assume "dict_get m ''source'' (JStr []) = JStr ''agent''
      \<and> dict_get m ''action'' JNull = JStr ''message''
      \<and> dict_get m ''args'' (JObj []) = JObj ma
      \<and> (py_or (dict_get ma ''content'' (JStr []))
                 (py_or (dict_get m ''content'' JNull) (dict_get m ''message'' (JStr [])))) = JStr mtxt
      \<and> mtxt \<noteq> []"
  then show "step ps st (JObj m) =
          Inr (st\<lparr>messages := messages st @ [AssistantMessage (JStr mtxt) None],
                  pending_tool_call := None\<rparr>)"
    by (clarsimp simp add: step_agent_message agent_message_def bindE_simps py_get_def Let_def
          new_message_simps)
next
  assume h: "dict_get t ''source'' (JStr []) = JStr ''agent''
      \<and> truthy (dict_get t ''action'' JNull)
      \<and> dict_get t ''action'' JNull
           \<notin> {JStr ''system'', JStr ''message'', JStr ''think'', JStr ''finish''}
      \<and> dict_get t ''args'' (JObj []) = JObj ta
      \<and> step ps st (JObj t) = Inr st'"
  then have a: "agent_action ps st (dict_get t ''action'' JNull) (JObj ta) = Inr st'"
    by (clarsimp simp add: step_agent_action)
  from h have n: "dict_get t ''action'' JNull \<noteq> JStr ''think''"
      "dict_get t ''action'' JNull \<noteq> JStr ''finish''"
    by auto
  let ?body = "if truthy (dict_get ta ''thought'' (JStr []))
               then dict_get ta ''thought'' (JStr []) else JStr []"
  from a n obtain func arguments view_content
    where "emit_tool_call st ?body func arguments view_content = Inr st'"
    unfolding agent_action_def Let_def py_or_def
    by (auto simp add: split: if_splits dest!: bindE_Inr)
  from emit_tool_call_Inr [OF this, THEN conjunct1]
  show "(\<exists>tc. messages st' = messages st @
             [AssistantMessage
                (if truthy (dict_get ta ''thought'' (JStr []))
                 then dict_get ta ''thought'' (JStr []) else JStr [])
                (Some [tc])]
           \<and> tc_id tc = call_id_of (call_counter st)
           \<and> pending_tool_call st' = Some (tc_function tc, tc_id tc)
           \<and> call_counter st' = call_counter st + 1)"
    by simp
next
  assume "dict_get k ''source'' (JStr []) = JStr ''agent''
      \<and> dict_get k ''action'' JNull = JStr ''think''
      \<and> dict_get k ''args'' (JObj []) = JObj ka"
  then show "step ps st (JObj k) =
          Inr (st\<lparr>messages := messages st @
                 [AssistantMessage
                    (JStr (''**Thinking:** '' @
                       py_str ps (if truthy (dict_get ka ''thought'' (JStr []))
                                  then dict_get ka ''thought'' (JStr []) else JStr [])))
                    None],
               pending_tool_call := None\<rparr>)"
    by (clarsimp simp add: step_agent_action agent_action_def bindE_simps py_or_def Let_def
          new_message_simps)
next
  assume "dict_get f ''source'' (JStr []) = JStr ''agent''
      \<and> dict_get f ''action'' JNull = JStr ''finish''
      \<and> dict_get f ''args'' (JObj []) = JObj fa"
  then show "step ps st (JObj f) =
          Inr (st\<lparr>messages := messages st @
                 [AssistantMessage
                    (JStr (''**Finished:** '' @
                       py_str ps (if truthy (dict_get fa ''thought'' (JStr []))
                                  then dict_get fa ''thought'' (JStr []) else JStr [])))
                    None],
               pending_tool_call := None\<rparr>)"
    by (clarsimp simp add: step_agent_action agent_action_def bindE_simps py_or_def Let_def
          new_message_simps)
qed

theorem empty_text_appends_nothing_witness:
  "step blank_str init_state
     (JObj [(''source'', JStr ''user''), (''action'', JStr ''message''),
            (''args'', JObj [(''content'', JStr [])])])
   = Inr init_state
   \<and> step blank_str init_state
     (JObj [(''source'', JStr ''user''), (''action'', JStr ''message''),
            (''args'', JObj [(''content'', JStr '' '')])])
   = Inr \<lparr>messages = [UserMessage (JStr '' '')], pending_tool_call = None, call_counter = 1\<rparr>
   \<and> step blank_str \<lparr>messages = [], pending_tool_call = Some (JStr ''bash'', ''call_1''), call_counter = 2\<rparr>
       (JObj [(''source'', JStr ''agent''), (''action'', JStr ''message''), (''args'', JObj [])])
     = Inr \<lparr>messages = [], pending_tool_call = None, call_counter = 2\<rparr>
   \<and> step blank_str init_state
       (JObj [(''source'', JStr ''agent''), (''action'', JStr ''message''),
              (''args'', JObj [(''content'', JStr '' '')])])
     = Inr \<lparr>messages = [AssistantMessage (JStr '' '') None], pending_tool_call = None,
            call_counter = 1\<rparr>
   \<and> step blank_str init_state
       (JObj [(''source'', JStr ''agent''), (''action'', JStr ''run''),
              (''args'', JObj [(''command'', JStr ''ls'')])])
     = Inr \<lparr>messages = [AssistantMessage (JStr [])
                (Some [ToolCall ''call_1'' (JStr ''bash'') (JObj [(''command'', JStr ''ls'')])
                         (ToolCallContent ''markdown'' ''```bash\<newline>ls\<newline>```'')])],
            pending_tool_call = Some (JStr ''bash'', ''call_1''), call_counter = 2\<rparr>
   \<and> step blank_str init_state
       (JObj [(''source'', JStr ''agent''), (''action'', JStr ''think''), (''args'', JObj [])])
     = Inr \<lparr>messages = [AssistantMessage (JStr ''**Thinking:** '') None],
            pending_tool_call = None, call_counter = 1\<rparr>
   \<and> step blank_str init_state
       (JObj [(''source'', JStr ''agent''), (''action'', JStr ''finish''), (''args'', JObj [])])
     = Inr \<lparr>messages = [AssistantMessage (JStr ''**Finished:** '') None],
            pending_tool_call = None, call_counter = 1\<rparr>"
proof -
  note t = empty_text_appends_nothing [where ps = blank_str]
  have p1: "step blank_str init_state
     (JObj [(''source'', JStr ''user''), (''action'', JStr ''message''),
            (''args'', JObj [(''content'', JStr [])])])
   = Inr init_state"
    using t [where st = init_state and ua = "[(''content'', JStr [])]"
        and u = "[(''source'', JStr ''user''), (''action'', JStr ''message''),
            (''args'', JObj [(''content'', JStr [])])]", THEN conjunct1]
    by (simp add: dict_get_def py_or_def)
  have p2: "step blank_str init_state
     (JObj [(''source'', JStr ''user''), (''action'', JStr ''message''),
            (''args'', JObj [(''content'', JStr '' '')])])
   = Inr \<lparr>messages = [UserMessage (JStr '' '')], pending_tool_call = None, call_counter = 1\<rparr>"
    using t [where st = init_state and ua = "[(''content'', JStr '' '')]" and utxt = "'' ''"
        and u = "[(''source'', JStr ''user''), (''action'', JStr ''message''),
            (''args'', JObj [(''content'', JStr '' '')])]", THEN conjunct2, THEN conjunct1]
    by (simp add: dict_get_def py_or_def init_state_def)
  have p3: "step blank_str \<lparr>messages = [], pending_tool_call = Some (JStr ''bash'', ''call_1''), call_counter = 2\<rparr>
       (JObj [(''source'', JStr ''agent''), (''action'', JStr ''message''), (''args'', JObj [])])
     = Inr \<lparr>messages = [], pending_tool_call = None, call_counter = 2\<rparr>"
    using t [where st = "\<lparr>messages = [], pending_tool_call = Some (JStr ''bash'', ''call_1''), call_counter = 2\<rparr>"
        and ma = "[]"
        and m = "[(''source'', JStr ''agent''), (''action'', JStr ''message''), (''args'', JObj [])]",
        THEN conjunct2, THEN conjunct2, THEN conjunct1]
    by (simp add: dict_get_def py_or_def)
  have p4: "step blank_str init_state
       (JObj [(''source'', JStr ''agent''), (''action'', JStr ''message''),
              (''args'', JObj [(''content'', JStr '' '')])])
     = Inr \<lparr>messages = [AssistantMessage (JStr '' '') None], pending_tool_call = None,
            call_counter = 1\<rparr>"
    using t [where st = init_state and ma = "[(''content'', JStr '' '')]" and mtxt = "'' ''"
        and m = "[(''source'', JStr ''agent''), (''action'', JStr ''message''),
              (''args'', JObj [(''content'', JStr '' '')])]",
        THEN conjunct2, THEN conjunct2, THEN conjunct2, THEN conjunct1]
    by (simp add: dict_get_def py_or_def init_state_def)
  have p5: "step blank_str init_state
       (JObj [(''source'', JStr ''agent''), (''action'', JStr ''run''),
              (''args'', JObj [(''command'', JStr ''ls'')])])
     = Inr \<lparr>messages = [AssistantMessage (JStr [])
                (Some [ToolCall ''call_1'' (JStr ''bash'') (JObj [(''command'', JStr ''ls'')])
                         (ToolCallContent ''markdown'' ''```bash\<newline>ls\<newline>```'')])],
            pending_tool_call = Some (JStr ''bash'', ''call_1''), call_counter = 2\<rparr>"
    using t [where st = init_state and ta = "[(''command'', JStr ''ls'')]"
        and t = "[(''source'', JStr ''agent''), (''action'', JStr ''run''),
              (''args'', JObj [(''command'', JStr ''ls'')])]",
        THEN conjunct2, THEN conjunct2, THEN conjunct2, THEN conjunct2, THEN conjunct1]
    by (simp add: conv_defs string_of_nat_1)
  have p6: "step blank_str init_state
       (JObj [(''source'', JStr ''agent''), (''action'', JStr ''think''), (''args'', JObj [])])
     = Inr \<lparr>messages = [AssistantMessage (JStr ''**Thinking:** '') None],
            pending_tool_call = None, call_counter = 1\<rparr>"
    using t [where st = init_state and ka = "[]"
        and k = "[(''source'', JStr ''agent''), (''action'', JStr ''think''), (''args'', JObj [])]",
        THEN conjunct2, THEN conjunct2, THEN conjunct2, THEN conjunct2, THEN conjunct2,
        THEN conjunct1]
    by (simp add: dict_get_def py_str_def init_state_def)
  have p7: "step blank_str init_state
       (JObj [(''source'', JStr ''agent''), (''action'', JStr ''finish''), (''args'', JObj [])])
     = Inr \<lparr>messages = [AssistantMessage (JStr ''**Finished:** '') None],
            pending_tool_call = None, call_counter = 1\<rparr>"
    using t [where st = init_state and fa = "[]"
        and f = "[(''source'', JStr ''agent''), (''action'', JStr ''finish''), (''args'', JObj [])]",
        THEN conjunct2, THEN conjunct2, THEN conjunct2, THEN conjunct2, THEN conjunct2,
        THEN conjunct2]
    by (simp add: dict_get_def py_str_def init_state_def)
  from p1 p2 p3 p4 p5 p6 p7 show ?thesis by (intro conjI)
qed

text \<open>
  C2 as stated fails: a text of one blank is not empty for the test on line 64 and is
  appended, and a \<^verbatim>\<open>run\<close> action without thought appends an assistant message with an empty
  body.
\<close>

theorem empty_text_counterexample:
  "convert_openhands_history_to_messages blank_str
     [JObj [(''source'', JStr ''user''), (''action'', JStr ''message''),
            (''args'', JObj [(''content'', JStr '' '')])]]
   = Inr [UserMessage (JStr '' '')]
   \<and> convert_openhands_history_to_messages blank_str
     [JObj [(''source'', JStr ''agent''), (''action'', JStr ''run''),
            (''args'', JObj [(''command'', JStr ''ls'')])]]
   = Inr [AssistantMessage (JStr [])
            (Some [ToolCall ''call_1'' (JStr ''bash'') (JObj [(''command'', JStr ''ls'')])
                     (ToolCallContent ''markdown'' ''```bash\<newline>ls\<newline>```'')])]"
  by (simp add: conv_defs string_of_nat_1)

text \<open>
  C3 (as amended). An event with source \<open>agent\<close> and action \<open>message\<close> is not taken by
  the guards before line 177 and runs the agent-message branch: when its \<open>args\<close> is a
  dictionary, the branch appends an assistant message without tool call if the text is
  a string that is not empty, appends nothing if the text is empty, and clears the pending
  call.
\<close>

theorem agent_message_reaches_rule4:
  assumes "dict_get ev ''source'' (JStr []) = JStr ''agent''"
    and "dict_get ev ''action'' JNull = JStr ''message''"
    and "dict_get ev ''args'' (JObj []) = JObj a"
  shows "step ps st (JObj ev) =
           agent_message st (JObj a)
             (py_or (dict_get ev ''content'' JNull) (dict_get ev ''message'' (JStr [])))
       \<and> (\<not> truthy (py_or (dict_get a ''content'' (JStr []))
                       (py_or (dict_get ev ''content'' JNull) (dict_get ev ''message'' (JStr []))))
          \<longrightarrow> step ps st (JObj ev) = Inr (st\<lparr>pending_tool_call := None\<rparr>))
       \<and> (py_or (dict_get a ''content'' (JStr []))
             (py_or (dict_get ev ''content'' JNull) (dict_get ev ''message'' (JStr []))) = JStr s
            \<and> s \<noteq> []
          \<longrightarrow> step ps st (JObj ev) =
                Inr (st\<lparr>messages := messages st @ [AssistantMessage (JStr s) None],
                        pending_tool_call := None\<rparr>))"
  using assms step_agent_message [OF assms(1,2), of ps st]
  by (simp add: agent_message_def bindE_simps py_get_def Let_def new_message_simps)

theorem agent_message_reaches_rule4_witness:
  "dict_get [(''source'', JStr ''agent''), (''action'', JStr ''message''),
             (''args'', JObj [(''content'', JStr ''hi'')])] ''source'' (JStr []) = JStr ''agent''
   \<and> dict_get [(''source'', JStr ''agent''), (''action'', JStr ''message''),
             (''args'', JObj [(''content'', JStr ''hi'')])] ''action'' JNull = JStr ''message''
   \<and> step blank_str \<lparr>messages = [], pending_tool_call = Some (JStr ''bash'', ''call_1''), call_counter = 2\<rparr>
        (JObj [(''source'', JStr ''agent''), (''action'', JStr ''message''),
               (''args'', JObj [(''content'', JStr ''hi'')])])
      = Inr \<lparr>messages = [AssistantMessage (JStr ''hi'') None], pending_tool_call = None, call_counter = 2\<rparr>"
proof -
  have h1: "dict_get [(''source'', JStr ''agent''), (''action'', JStr ''message''),
             (''args'', JObj [(''content'', JStr ''hi'')])] ''source'' (JStr []) = JStr ''agent''"
    and h2: "dict_get [(''source'', JStr ''agent''), (''action'', JStr ''message''),
             (''args'', JObj [(''content'', JStr ''hi'')])] ''action'' JNull = JStr ''message''"
    and h3: "dict_get [(''source'', JStr ''agent''), (''action'', JStr ''message''),
             (''args'', JObj [(''content'', JStr ''hi'')])] ''args'' (JObj [])
               = JObj [(''content'', JStr ''hi'')]"
    by (simp_all add: dict_get_def)
  from agent_message_reaches_rule4 [OF h1 h2 h3, where ps = blank_str and s = "''hi''"
      and st = "\<lparr>messages = [], pending_tool_call = Some (JStr ''bash'', ''call_1''), call_counter = 2\<rparr>",
      THEN conjunct2, THEN conjunct2]
  have "step blank_str \<lparr>messages = [], pending_tool_call = Some (JStr ''bash'', ''call_1''), call_counter = 2\<rparr>
        (JObj [(''source'', JStr ''agent''), (''action'', JStr ''message''),
               (''args'', JObj [(''content'', JStr ''hi'')])])
      = Inr \<lparr>messages = [AssistantMessage (JStr ''hi'') None], pending_tool_call = None, call_counter = 2\<rparr>"
    by (simp add: dict_get_def py_or_def)
  with h1 h2 show ?thesis by (intro conjI)
qed

text \<open>
  C3 as stated fails: the history of one agent message is converted by that branch into one
  assistant message.
\<close>

theorem rule4_unreachable_counterexample:
  "convert_openhands_history_to_messages blank_str
     [JObj [(''source'', JStr ''agent''), (''action'', JStr ''message''),
            (''args'', JObj [(''content'', JStr ''hi'')])]]
   = Inr [AssistantMessage (JStr ''hi'') None]"
  by (simp add: conv_defs)

text \<open>
  C7. A \<^verbatim>\<open>write\<close> action whose content is a string of more than 500 characters (and whose
  thought is a string) appends the assistant message whose tool call is rendered with the
  preview made of the first 500 characters and \<open>...\<close>, 503 characters in all. An
  observation whose text is a string of more than 5000 characters, answering the pending
  call, is stored as its first 5000 characters followed by the truncation marker.
\<close>

theorem truncation_laws:
  "(dict_get ev ''source'' (JStr []) = JStr ''agent''
      \<and> dict_get ev ''action'' JNull = JStr ''write''
      \<and> dict_get ev ''args'' (JObj []) = JObj a
      \<and> dict_get a ''content'' (JStr []) = JStr c
      \<and> 500 < length c
      \<and> py_or (dict_get a ''thought'' (JStr [])) (JStr []) = JStr thought
    \<longrightarrow> write_preview (JStr c) = Inr (JStr (take 500 c @ ''...''))
        \<and> length (take 500 c @ ''...'') = 503
        \<and> step ps st (JObj ev) =
            Inr (st\<lparr>messages := messages st @
                   [AssistantMessage (JStr thought)
                      (Some [ToolCall (call_id_of (call_counter st)) (JStr ''write_file'')
                               (JObj [(''path'', dict_get a ''path'' (JStr []))])
                               (ToolCallContent ''markdown''
                                  (''Writing to file: `'' @ py_str ps (dict_get a ''path'' (JStr []))
                                     @ ''`\<newline>```\<newline>'' @ (take 500 c @ ''...'')
                                     @ ''\<newline>```''))])],
                 pending_tool_call := Some (JStr ''write_file'', call_id_of (call_counter st)),
                 call_counter := call_counter st + 1\<rparr>))
   \<and> (reaches_observation_test ob
      \<and> truthy (dict_get ob ''observation'' JNull)
      \<and> pending_tool_call st = Some (JStr f, cid)
      \<and> observation_content ps ob = JStr s
      \<and> 5000 < length s
    \<longrightarrow> step ps st (JObj ob) =
          Inr (st\<lparr>messages := messages st @
                     [ToolMessage (JStr (take 5000 s @ ''\<newline>... (truncated)'')) cid (JStr f)],
                  pending_tool_call := None\<rparr>)
        \<and> length (take 5000 s) = 5000)"
proof (intro conjI impI)
  assume h: "dict_get ev ''source'' (JStr []) = JStr ''agent''
      \<and> dict_get ev ''action'' JNull = JStr ''write''
      \<and> dict_get ev ''args'' (JObj []) = JObj a
      \<and> dict_get a ''content'' (JStr []) = JStr c
      \<and> 500 < length c
      \<and> py_or (dict_get a ''thought'' (JStr [])) (JStr []) = JStr thought"
  then have len: "500 < length c" by blast
  from len show "write_preview (JStr c) = Inr (JStr (take 500 c @ ''...''))"
    by (rule write_preview_long)
  from len show "length (take 500 c @ ''...'') = 503" by simp
  from h have "step ps st (JObj ev) = agent_action ps st (JStr ''write'') (JObj a)"
    by (clarsimp simp add: step_agent_action)
  with h show "step ps st (JObj ev) =
            Inr (st\<lparr>messages := messages st @
                   [AssistantMessage (JStr thought)
                      (Some [ToolCall (call_id_of (call_counter st)) (JStr ''write_file'')
                               (JObj [(''path'', dict_get a ''path'' (JStr []))])
                               (ToolCallContent ''markdown''
                                  (''Writing to file: `'' @ py_str ps (dict_get a ''path'' (JStr []))
                                     @ ''`\<newline>```\<newline>'' @ (take 500 c @ ''...'')
                                     @ ''\<newline>```''))])],
                 pending_tool_call := Some (JStr ''write_file'', call_id_of (call_counter st)),
                 call_counter := call_counter st + 1\<rparr>)"
    by (clarsimp simp add: agent_action_def write_preview_long bindE_simps py_str_def Let_def
          emit_tool_call_def new_message_simps)
next
  assume h: "reaches_observation_test ob
      \<and> truthy (dict_get ob ''observation'' JNull)
      \<and> pending_tool_call st = Some (JStr f, cid)
      \<and> observation_content ps ob = JStr s
      \<and> 5000 < length s"
  then have r: "reaches_observation_test ob" by blast
  from h show "step ps st (JObj ob) =
          Inr (st\<lparr>messages := messages st @
                     [ToolMessage (JStr (take 5000 s @ ''\<newline>... (truncated)'')) cid (JStr f)],
                  pending_tool_call := None\<rparr>)"
    unfolding step_observation_test [OF r]
    by (clarsimp simp add: observation_result_def bindE_simps Let_def new_message_simps)
  from h show "length (take 5000 s) = 5000" by simp
qed

theorem truncation_laws_witness:
  "500 < length (replicate 501 CHR ''a'')
   \<and> step blank_str init_state
       (JObj [(''source'', JStr ''agent''), (''action'', JStr ''write''),
              (''args'', JObj [(''path'', JStr ''f''), (''content'', JStr (replicate 501 CHR ''a''))])])
     = Inr \<lparr>messages =
              [AssistantMessage (JStr [])
                 (Some [ToolCall ''call_1'' (JStr ''write_file'') (JObj [(''path'', JStr ''f'')])
                          (ToolCallContent ''markdown''
                             (''Writing to file: `f`\<newline>```\<newline>''
                                @ (take 500 (replicate 501 CHR ''a'') @ ''...'') @ ''\<newline>```''))])],
            pending_tool_call = Some (JStr ''write_file'', ''call_1''), call_counter = 2\<rparr>
   \<and> length (take 500 (replicate 501 CHR ''a'') @ ''...'') = 503
   \<and> 5000 < length (replicate 5001 CHR ''b'')
   \<and> step blank_str \<lparr>messages = [], pending_tool_call = Some (JStr ''bash'', ''call_1''), call_counter = 2\<rparr>
       (JObj [(''observation'', JStr ''run''), (''content'', JStr (replicate 5001 CHR ''b''))])
     = Inr \<lparr>messages = [ToolMessage (JStr (take 5000 (replicate 5001 CHR ''b'') @ ''\<newline>... (truncated)''))
                           ''call_1'' (JStr ''bash'')],
            pending_tool_call = None, call_counter = 2\<rparr>"
proof -
  note t = truncation_laws
    [where f = "''bash''" and cid = "''call_1''" and ev = "[(''source'', JStr ''agent''), (''action'', JStr ''write''),
              (''args'', JObj [(''path'', JStr ''f''), (''content'', JStr (replicate 501 CHR ''a''))])]"
       and a = "[(''path'', JStr ''f''), (''content'', JStr (replicate 501 CHR ''a''))]"
       and c = "replicate 501 CHR ''a''" and thought = "[]"
       and ps = blank_str
       and ob = "[(''observation'', JStr ''run''), (''content'', JStr (replicate 5001 CHR ''b''))]"
       and s = "replicate 5001 CHR ''b''"]
  have h1: "dict_get [(''source'', JStr ''agent''), (''action'', JStr ''write''),
              (''args'', JObj [(''path'', JStr ''f''), (''content'', JStr (replicate 501 CHR ''a''))])]
              ''source'' (JStr []) = JStr ''agent''
      \<and> dict_get [(''source'', JStr ''agent''), (''action'', JStr ''write''),
              (''args'', JObj [(''path'', JStr ''f''), (''content'', JStr (replicate 501 CHR ''a''))])]
              ''action'' JNull = JStr ''write''
      \<and> dict_get [(''source'', JStr ''agent''), (''action'', JStr ''write''),
              (''args'', JObj [(''path'', JStr ''f''), (''content'', JStr (replicate 501 CHR ''a''))])]
              ''args'' (JObj []) = JObj [(''path'', JStr ''f''), (''content'', JStr (replicate 501 CHR ''a''))]
      \<and> dict_get [(''path'', JStr ''f''), (''content'', JStr (replicate 501 CHR ''a''))]
              ''content'' (JStr []) = JStr (replicate 501 CHR ''a'')
      \<and> 500 < length (replicate 501 CHR ''a'')
      \<and> py_or (dict_get [(''path'', JStr ''f''), (''content'', JStr (replicate 501 CHR ''a''))] ''thought'' (JStr [])) (JStr []) = JStr []"
    by (simp add: dict_get_def py_or_def)
  from t [where st = init_state, THEN conjunct1, THEN mp, OF h1]
  have c1: "step blank_str init_state
       (JObj [(''source'', JStr ''agent''), (''action'', JStr ''write''),
              (''args'', JObj [(''path'', JStr ''f''), (''content'', JStr (replicate 501 CHR ''a''))])])
     = Inr \<lparr>messages =
              [AssistantMessage (JStr [])
                 (Some [ToolCall ''call_1'' (JStr ''write_file'') (JObj [(''path'', JStr ''f'')])
                          (ToolCallContent ''markdown''
                             (''Writing to file: `f`\<newline>```\<newline>''
                                @ (take 500 (replicate 501 CHR ''a'') @ ''...'') @ ''\<newline>```''))])],
            pending_tool_call = Some (JStr ''write_file'', ''call_1''), call_counter = 2\<rparr>"
    and c2: "length (take 500 (replicate 501 CHR ''a'') @ ''...'') = 503"
    by (simp_all add: dict_get_def py_str_def init_state_def call_id_of_def string_of_nat_1)
  have h2: "reaches_observation_test
                [(''observation'', JStr ''run''), (''content'', JStr (replicate 5001 CHR ''b''))]
      \<and> truthy (dict_get [(''observation'', JStr ''run''), (''content'', JStr (replicate 5001 CHR ''b''))]
                  ''observation'' JNull)
      \<and> pending_tool_call
           \<lparr>messages = [], pending_tool_call = Some (JStr ''bash'', ''call_1''), call_counter = 2\<rparr>
          = Some (JStr ''bash'', ''call_1'')
      \<and> observation_content blank_str
           [(''observation'', JStr ''run''), (''content'', JStr (replicate 5001 CHR ''b''))]
          = JStr (replicate 5001 CHR ''b'')
      \<and> 5000 < length (replicate 5001 CHR ''b'')"
    by (simp add: reaches_observation_test_def observation_content_def dict_get_def)
  from t [where st = "\<lparr>messages = [], pending_tool_call = Some (JStr ''bash'', ''call_1''), call_counter = 2\<rparr>", THEN conjunct2, THEN mp, OF h2]
  have c3: "step blank_str \<lparr>messages = [], pending_tool_call = Some (JStr ''bash'', ''call_1''), call_counter = 2\<rparr>
       (JObj [(''observation'', JStr ''run''), (''content'', JStr (replicate 5001 CHR ''b''))])
     = Inr \<lparr>messages = [ToolMessage (JStr (take 5000 (replicate 5001 CHR ''b'') @ ''\<newline>... (truncated)''))
                           ''call_1'' (JStr ''bash'')],
            pending_tool_call = None, call_counter = 2\<rparr>"
    by simp
  from h1 h2 c1 c2 c3 show ?thesis by blast
qed

text \<open>
  C8. An event that reaches the test for an observation (an observation event has no
  action) while no call is pending appends no message and leaves the state as it is: the
  loop continues as if the event were absent, and so does the whole conversion when the
  event arrives after a prefix that ends with no pending call.
\<close>

theorem observation_without_pending_dropped:
  assumes "reaches_observation_test ev" and "pending_tool_call st = None"
  shows "step ps st (JObj ev) = Inr st
       \<and> run_events ps st (JObj ev # rest) = run_events ps st rest
       \<and> (run_events ps init_state before = Inr st \<longrightarrow>
            convert_openhands_history_to_messages ps (before @ JObj ev # rest)
              = convert_openhands_history_to_messages ps (before @ rest))"
proof -
  from assms have s: "step ps st (JObj ev) = Inr st"
    by (simp add: step_observation_test)
  then have r: "run_events ps st (JObj ev # rest) = run_events ps st rest"
    by simp
  have "convert_openhands_history_to_messages ps (before @ JObj ev # rest)
          = convert_openhands_history_to_messages ps (before @ rest)"
    if "run_events ps init_state before = Inr st"
    using that r
    by (simp add: convert_openhands_history_to_messages_def run_events_append bindE_def)
  with s r show ?thesis by blast
qed

theorem observation_without_pending_dropped_witness:
  "reaches_observation_test [(''observation'', JStr ''run''), (''content'', JStr ''2 passed'')]
   \<and> pending_tool_call init_state = None
   \<and> step blank_str init_state
        (JObj [(''observation'', JStr ''run''), (''content'', JStr ''2 passed'')]) = Inr init_state
   \<and> convert_openhands_history_to_messages blank_str
        ([] @ JObj [(''observation'', JStr ''run''), (''content'', JStr ''2 passed'')]
            # [JObj [(''source'', JStr ''user''), (''action'', JStr ''message''),
                     (''args'', JObj [(''content'', JStr ''hi'')])]])
      = convert_openhands_history_to_messages blank_str
        ([] @ [JObj [(''source'', JStr ''user''), (''action'', JStr ''message''),
                     (''args'', JObj [(''content'', JStr ''hi'')])]])"
proof -
  have h1: "reaches_observation_test [(''observation'', JStr ''run''), (''content'', JStr ''2 passed'')]"
    by (simp add: reaches_observation_test_def dict_get_def)
  have h2: "pending_tool_call init_state = None"
    by (simp add: init_state_def)
  have h3: "run_events blank_str init_state [] = Inr init_state"
    by simp
  note t = observation_without_pending_dropped [OF h1 h2, of blank_str
      "[JObj [(''source'', JStr ''user''), (''action'', JStr ''message''),
              (''args'', JObj [(''content'', JStr ''hi'')])]]" "[]"]
  from t [THEN conjunct1] t [THEN conjunct2, THEN conjunct2, THEN mp, OF h3] h1 h2
  show ?thesis by blast
qed

section \<open>The scores of the aggregator\<close>

lemma py_in_cases: "py_in x c = Inr True \<or> py_in x c = Inr False \<or> py_in x c = Inl TypeError"
  by (cases c; cases x) auto

lemma run_report_status_dict:
  assumes "run_report_status (Some (JObj r)) iid scores = Inr scores'"
    and "r \<noteq> []"
  shows "\<exists>sets. dict_get r ''instance_sets'' (JObj []) = JObj sets"
  using assms
  by (cases "dict_get r ''instance_sets'' (JObj [])")
     (simp_all add: run_report_status_def bindE_def py_get_def)

lemma py_get_JObj: "py_get (JObj d) k dflt = Inr (dict_get d k dflt)"
  by (simp add: py_get_def)

lemma run_report_status_sets:
  assumes "run_report_status (Some (JObj r)) iid scores = Inr scores'"
    and "dict_get r ''instance_sets'' (JObj []) = JObj sets"
  shows "scores' =
           status_by_precedence (\<lambda>n. py_in iid (dict_get sets n (JList [])) = Inr True) scores"
proof (cases "r = []")
  case True
  with assms show ?thesis
    by (simp add: run_report_status_def status_by_precedence_def status_precedence_def
          dict_get_def)
next
  case False
  with assms show ?thesis
    using py_in_cases [of iid "dict_get sets ''passed_ids'' (JList [])"]
      py_in_cases [of iid "dict_get sets ''opt_base_ids'' (JList [])"]
      py_in_cases [of iid "dict_get sets ''test_failed_ids'' (JList [])"]
      py_in_cases [of iid "dict_get sets ''patch_failed_ids'' (JList [])"]
      py_in_cases [of iid "dict_get sets ''error_ids'' (JList [])"]
    by (elim disjE)
       (simp_all add: run_report_status_def bindE_simps py_get_JObj status_by_precedence_def
          status_precedence_def)
qed


lemma run_report_status_spec:
  assumes "run_report_status (Some report) iid scores = Inr scores'"
  shows "scores' = status_by_precedence (report_member report iid) scores"
proof (cases report)
  case (JObj r)
  show ?thesis
  proof (cases "r = []")
    case True
    with assms JObj show ?thesis
      by (simp add: run_report_status_def status_by_precedence_def status_precedence_def
            report_member_def dict_get_def)
  next
    case False
    from assms JObj have a: "run_report_status (Some (JObj r)) iid scores = Inr scores'"
      by simp
    from run_report_status_dict [OF a False] obtain sets
      where sets: "dict_get r ''instance_sets'' (JObj []) = JObj sets" ..
    have "report_member report iid = (\<lambda>n. py_in iid (dict_get sets n (JList [])) = Inr True)"
      by (rule ext) (simp add: report_member_def JObj sets)
    with run_report_status_sets [OF a sets] show ?thesis by simp
  qed
qed (use assms in \<open>simp_all add: run_report_status_def status_by_precedence_def
       status_precedence_def report_member_def bindE_def py_get_def split: if_splits\<close>)

lemma map_of_filter_nonnull:
  assumes "map_of al k = Some v" and "v \<noteq> JNull"
  shows "map_of (filter (\<lambda>kv. snd kv \<noteq> JNull) al) k = Some v"
  using assms by (induction al) (auto split: if_splits)

lemma map_of_filter_never_null:
  "map_of (filter (\<lambda>kv. snd kv \<noteq> JNull) al) k \<noteq> Some JNull"
proof
  assume "map_of (filter (\<lambda>kv. snd kv \<noteq> JNull) al) k = Some JNull"
  then have "(k, JNull) \<in> set (filter (\<lambda>kv. snd kv \<noteq> JNull) al)"
    by (rule map_of_SomeD)
  then show False by simp
qed

lemma build_agent_run_scores:
  assumes "build_agent_run ps (JObj t) logs_dir model_name run_report = Inr (Some run)"
  shows "\<exists>s6 s7. instance_scores logs_dir (dict_get t ''instance_id'' JNull) = Inr s6
           \<and> run_report_status run_report (dict_get t ''instance_id'' JNull) s6 = Inr s7
           \<and> map_of (metadata run) ''scores'' = Some (JObj s7)
           \<and> (\<forall>k. map_of (metadata run) k \<noteq> Some JNull)"
proof -
  let ?iid = "dict_get t ''instance_id'' JNull"
  let ?history = "dict_get t ''history'' (JList [])"
  let ?finish = "\<lambda>msgs metadata scores.
        Inr (Some (AgentRun [Transcript msgs]
          (filter (\<lambda>kv. snd kv \<noteq> JNull)
             (case model_name of
                None \<Rightarrow> AList.update ''scores'' (JObj scores) metadata
              | Some name \<Rightarrow>
                  if name \<noteq> [] then
                    AList.update ''model_name'' (JStr name)
                      (AList.update ''scores'' (JObj scores) metadata)
                  else AList.update ''scores'' (JObj scores) metadata)))) :: py_error + agent_run option"
  let ?after = "\<lambda>msgs.
        bindE (trajectory_metadata t ?iid) (\<lambda>metadata.
        bindE (instance_scores logs_dir ?iid) (\<lambda>scores.
        bindE (run_report_status run_report ?iid scores) (\<lambda>scores. ?finish msgs metadata scores)))"
  from assms have b:
    "bindE (case ?history of
              JList events \<Rightarrow> convert_openhands_history_to_messages ps events
            | JStr _ \<Rightarrow> Inl AttributeError
            | JObj _ \<Rightarrow> Inl AttributeError
            | _ \<Rightarrow> Inl TypeError)
       (\<lambda>msgs. if msgs = [] then Inr None else ?after msgs) = Inr (Some run)"
    unfolding build_agent_run_def Let_def by (simp split: if_splits)
  from bindE_Inr [OF b] obtain msgs
    where b1: "(if msgs = [] then Inr None else ?after msgs) = Inr (Some run)"
    by blast
  then have b2: "?after msgs = Inr (Some run)"
    by (simp split: if_splits)
  from bindE_Inr [OF b2] obtain md
    where b3: "bindE (instance_scores logs_dir ?iid) (\<lambda>scores.
        bindE (run_report_status run_report ?iid scores) (\<lambda>scores. ?finish msgs md scores))
        = Inr (Some run)"
    by blast
  from bindE_Inr [OF b3] obtain s6
    where s6: "instance_scores logs_dir ?iid = Inr s6"
      and b4: "bindE (run_report_status run_report ?iid s6) (\<lambda>scores. ?finish msgs md scores)
        = Inr (Some run)"
    by blast
  from bindE_Inr [OF b4] obtain s7
    where s7: "run_report_status run_report ?iid s6 = Inr s7"
      and fin: "?finish msgs md s7 = Inr (Some run)"
    by blast
  from fin have "map_of (metadata run) ''scores'' = Some (JObj s7)
      \<and> (\<forall>k. map_of (metadata run) k \<noteq> Some JNull)"
    by (auto simp add: map_of_filter_nonnull map_of_filter_never_null update_conv'
          split: option.splits if_splits)
  with s6 s7 show ?thesis by blast
qed

lemmas agg_defs = build_agent_run_def trajectory_metadata_def instance_scores_def
  run_report_status_def load_gso_report_def









lemma instance_scores_status:
  assumes "instance_scores logs_dir iid = Inr scores" and "map_of scores ''status'' = Some v"
  shows "v = JStr ''unknown''"
proof (cases logs_dir)
  case None
  with assms show ?thesis by (auto simp add: instance_scores_def)
next
  case (Some dir)
  from assms(1) Some obtain rep where l: "load_gso_report dir iid = Inr rep"
    by (auto simp add: instance_scores_def dest: bindE_Inr)
  show ?thesis
  proof (cases "truthy rep")
    case False
    with assms Some l show ?thesis
      by (auto simp add: instance_scores_def bindE_simps)
  next
    case True
    show ?thesis
    proof (cases rep)
      case (JObj r)
      show ?thesis
      proof (cases "truthy (dict_get r ''opt_stats'' (JObj []))")
        case False
        with assms Some l True JObj show ?thesis
          by (auto simp add: instance_scores_def bindE_simps py_get_JObj)
      next
        case t: True
        show ?thesis
        proof (cases "dict_get r ''opt_stats'' (JObj [])")
          case (JObj os)
          with assms Some l True \<open>rep = JObj r\<close> t show ?thesis
            by (auto simp add: instance_scores_def bindE_simps py_get_JObj)
        qed (use assms Some l True \<open>rep = JObj r\<close> t in
              \<open>auto simp add: instance_scores_def bindE_simps py_get_JObj py_get_def\<close>)
      qed
    qed (use assms Some l True in \<open>auto simp add: instance_scores_def bindE_simps py_get_def\<close>)
  qed
qed

lemma status_by_precedence_status:
  assumes "map_of (status_by_precedence member scores) ''status'' = Some v"
  shows "v \<in> {JStr ''passed'', JStr ''opt_base'', JStr ''test_failed'', JStr ''patch_failed'',
              JStr ''error''}
       \<or> map_of scores ''status'' = Some v"
proof (cases "find (\<lambda>p. member (fst p)) status_precedence")
  case None
  with assms show ?thesis by (simp add: status_by_precedence_def)
next
  case (Some p)
  then have "p \<in> set status_precedence"
    by (auto simp add: find_Some_iff)
  then have "snd p \<in> {''passed'', ''opt_base'', ''test_failed'', ''patch_failed'', ''error''}"
    by (auto simp add: status_precedence_def)
  with assms Some show ?thesis
    by (auto simp add: status_by_precedence_def update_conv')
qed

lemma status_values:
  assumes "build_agent_run ps (JObj t) logs_dir model_name run_report = Inr (Some run)"
    and "map_of (metadata run) ''scores'' = Some (JObj scores)"
    and "map_of scores ''status'' = Some v"
  shows "v \<in> {JStr ''unknown'', JStr ''passed'', JStr ''opt_base'', JStr ''test_failed'',
              JStr ''patch_failed'', JStr ''error''}"
proof -
  from build_agent_run_scores [OF assms(1)] assms(2) obtain s6
    where s6: "instance_scores logs_dir (dict_get t ''instance_id'' JNull) = Inr s6"
      and s7: "run_report_status run_report (dict_get t ''instance_id'' JNull) s6 = Inr scores"
    by auto
  show ?thesis
  proof (cases run_report)
    case None
    with s7 have "scores = s6" by (simp add: run_report_status_def)
    with instance_scores_status [OF s6] assms(3) show ?thesis by simp
  next
    case (Some report)
    let ?m = "report_member report (dict_get t ''instance_id'' JNull)"
    from Some s7 have "run_report_status (Some report) (dict_get t ''instance_id'' JNull) s6
        = Inr scores"
      by simp
    from run_report_status_spec [OF this] have e: "scores = status_by_precedence ?m s6" .
    from assms(3) have "map_of (status_by_precedence ?m s6) ''status'' = Some v"
      unfolding e .
    from status_by_precedence_status [OF this] show ?thesis
    proof
      assume "v \<in> {JStr ''passed'', JStr ''opt_base'', JStr ''test_failed'',
                    JStr ''patch_failed'', JStr ''error''}"
      then show ?thesis by blast
    next
      assume "map_of s6 ''status'' = Some v"
      from instance_scores_status [OF s6 this] show ?thesis by simp
    qed
  qed
qed



text \<open>
  C5. What the code does with an instance report and no run-level report: the scores of
  the returned metadata are the five fields of the report and have no \<open>status\<close> key. (By
  \<open>status_values\<close>, a status that is present is one of the six labels.)
\<close>

theorem scores_without_status:
  "build_agent_run blank_str (JObj [(''instance_id'', JStr ''iid''),
            (''history'', JList [JObj [(''source'', JStr ''user''), (''action'', JStr ''message''),
                                       (''args'', JObj [(''content'', JStr ''fix bug'')])]])])
     (Some [(''iid'', JObj [(''iid'', JObj [(''test_passed'', JBool True)])])]) None None
   = Inr (Some (AgentRun [Transcript [UserMessage (JStr ''fix bug'')]]
           [(''instance_id'', JStr ''iid''),
            (''scores'', JObj [(''test_passed'', JBool True), (''opt_base'', JBool False),
                        (''opt_commit'', JBool False), (''opt_main'', JBool False),
                        (''patch_applied'', JBool False)])]))
   \<and> map_of [(''test_passed'', JBool True), (''opt_base'', JBool False),
                        (''opt_commit'', JBool False), (''opt_main'', JBool False),
                        (''patch_applied'', JBool False)] ''status'' = None"
  by (simp add: agg_defs conv_defs)





section \<open>Successive conversions\<close>

lemma parse_trajectories_acc:
  "parse_trajectories ps logs_dir model_name run_report agent_runs lines
     = agent_runs @ parse_trajectories ps logs_dir model_name run_report [] lines"
proof (induction lines arbitrary: agent_runs)
  case Nil
  show ?case by simp
next
  case (Cons line lines)
  show ?case
  proof (cases line)
    case None
    with Cons.IH [of agent_runs] show ?thesis by simp
  next
    case (Some traj_data)
    show ?thesis
    proof (cases "build_agent_run ps traj_data logs_dir model_name run_report")
      case (Inl e)
      with Some Cons.IH [of agent_runs] show ?thesis by simp
    next
      case (Inr r)
      show ?thesis
      proof (cases r)
        case None
        with Some Inr Cons.IH [of agent_runs] show ?thesis by simp
      next
        case (Some run)
        with \<open>line = Some traj_data\<close> Inr Cons.IH [of "agent_runs @ [run]"] Cons.IH [of "[run]"]
        show ?thesis by simp
      qed
    qed
  qed
qed

lemma parse_trajectories_append:
  "parse_trajectories ps logs_dir model_name run_report agent_runs (xs @ ys)
     = parse_trajectories ps logs_dir model_name run_report
         (parse_trajectories ps logs_dir model_name run_report agent_runs xs) ys"
  by (induction xs arbitrary: agent_runs) (simp_all split: option.splits sum.splits)

lemma parse_twice_example:
  "parse_trajectories ps None None None [] [Some (JObj [(''instance_id'', JStr ''iid''),
            (''history'', JList [JObj [(''source'', JStr ''user''), (''action'', JStr ''message''),
                                       (''args'', JObj [(''content'', JStr ''fix bug'')])]])]), Some (JObj [(''instance_id'', JStr ''iid''),
            (''history'', JList [JObj [(''source'', JStr ''user''), (''action'', JStr ''message''),
                                       (''args'', JObj [(''content'', JStr ''fix bug'')])]])])]
   = [AgentRun [Transcript [UserMessage (JStr ''fix bug'')]]
           [(''instance_id'', JStr ''iid''),
            (''scores'', JObj [(''status'', JStr ''unknown'')])],
      AgentRun [Transcript [UserMessage (JStr ''fix bug'')]]
           [(''instance_id'', JStr ''iid''),
            (''scores'', JObj [(''status'', JStr ''unknown'')])]]"
  by (simp add: agg_defs conv_defs)

text \<open>
  C9. The conversion is a function of the history alone, and nothing of one invocation
  reaches the next. In the loop of \<^verbatim>\<open>ingest_trajectories\<close>, which converts one trajectory per
  line, what a line adds to the list of runs is the run that \<^verbatim>\<open>build_agent_run\<close> builds for that
  line alone (nothing when it fails or skips the trajectory), whatever lines were processed
  before it; two lines with the same trajectory give the same run twice; and the identifiers
  of every conversion start again at \<open>call_1\<close>.
\<close>

theorem conversions_independent:
  "parse_trajectories ps logs_dir model_name run_report agent_runs (lines @ [Some traj_data])
     = parse_trajectories ps logs_dir model_name run_report agent_runs lines
       @ (case build_agent_run ps traj_data logs_dir model_name run_report of
            Inr (Some run) \<Rightarrow> [run] | _ \<Rightarrow> [])
   \<and> parse_trajectories ps logs_dir model_name run_report [] [Some traj_data, Some traj_data]
     = (case build_agent_run ps traj_data logs_dir model_name run_report of
          Inr (Some run) \<Rightarrow> [run] | _ \<Rightarrow> [])
       @ (case build_agent_run ps traj_data logs_dir model_name run_report of
            Inr (Some run) \<Rightarrow> [run] | _ \<Rightarrow> [])
   \<and> (convert_openhands_history_to_messages ps history = Inr ms
      \<longrightarrow> inv_ids ms = map call_id_of [1..<Suc (length (inv_ids ms))])"
proof (intro conjI impI)
  have one: "parse_trajectories ps logs_dir model_name run_report acc [Some traj_data]
     = acc @ (case build_agent_run ps traj_data logs_dir model_name run_report of
                Inr (Some run) \<Rightarrow> [run] | _ \<Rightarrow> [])" for acc
    by (simp split: sum.splits option.splits)
  show "parse_trajectories ps logs_dir model_name run_report agent_runs (lines @ [Some traj_data])
     = parse_trajectories ps logs_dir model_name run_report agent_runs lines
       @ (case build_agent_run ps traj_data logs_dir model_name run_report of
            Inr (Some run) \<Rightarrow> [run] | _ \<Rightarrow> [])"
    by (subst parse_trajectories_append) (rule one)
  have "parse_trajectories ps logs_dir model_name run_report [] ([Some traj_data] @ [Some traj_data])
     = (case build_agent_run ps traj_data logs_dir model_name run_report of
          Inr (Some run) \<Rightarrow> [run] | _ \<Rightarrow> [])
       @ (case build_agent_run ps traj_data logs_dir model_name run_report of
            Inr (Some run) \<Rightarrow> [run] | _ \<Rightarrow> [])"
    unfolding parse_trajectories_append one by simp
  then show "parse_trajectories ps logs_dir model_name run_report [] [Some traj_data, Some traj_data]
     = (case build_agent_run ps traj_data logs_dir model_name run_report of
          Inr (Some run) \<Rightarrow> [run] | _ \<Rightarrow> [])
       @ (case build_agent_run ps traj_data logs_dir model_name run_report of
            Inr (Some run) \<Rightarrow> [run] | _ \<Rightarrow> [])"
    by simp
next
  assume a: "convert_openhands_history_to_messages ps history = Inr ms"
  then obtain st where r: "run_events ps init_state history = Inr st" and ms: "ms = messages st"
    by (auto simp add: convert_openhands_history_to_messages_def split: sum.splits)
  from run_events_inv [OF conv_inv_init r] have "conv_inv st" .
  then have "inv_ids (messages st) = map call_id_of [1..<call_counter st]"
    and "0 < call_counter st"
    by (simp_all add: conv_inv_def)
  then have "inv_ids (messages st) = map call_id_of [1..<Suc (length (inv_ids (messages st)))]"
    by simp
  then show "inv_ids ms = map call_id_of [1..<Suc (length (inv_ids ms))]"
    unfolding ms .
qed

theorem conversions_independent_witness:
  "convert_openhands_history_to_messages blank_str
     [JObj [(''source'', JStr ''agent''), (''action'', JStr ''read''),
            (''args'', JObj [(''path'', JStr ''a.py'')])],
      JObj [(''observation'', JStr ''read''), (''content'', JStr ''x = 1'')]]
   = Inr [AssistantMessage (JStr [])
            (Some [ToolCall ''call_1'' (JStr ''read_file'') (JObj [(''path'', JStr ''a.py'')])
                     (ToolCallContent ''markdown'' ''Reading file: `a.py`'')]),
          ToolMessage (JStr ''x = 1'') ''call_1'' (JStr ''read_file'')]
   \<and> inv_ids [AssistantMessage (JStr [])
            (Some [ToolCall ''call_1'' (JStr ''read_file'') (JObj [(''path'', JStr ''a.py'')])
                     (ToolCallContent ''markdown'' ''Reading file: `a.py`'')]),
          ToolMessage (JStr ''x = 1'') ''call_1'' (JStr ''read_file'')] = [''call_1'']
   \<and> parse_trajectories blank_str None None None [] [Some (JObj [(''instance_id'', JStr ''iid''),
            (''history'', JList [JObj [(''source'', JStr ''user''), (''action'', JStr ''message''),
                                       (''args'', JObj [(''content'', JStr ''fix bug'')])]])]), Some (JObj [(''instance_id'', JStr ''iid''),
            (''history'', JList [JObj [(''source'', JStr ''user''), (''action'', JStr ''message''),
                                       (''args'', JObj [(''content'', JStr ''fix bug'')])]])])]
     = [AgentRun [Transcript [UserMessage (JStr ''fix bug'')]]
           [(''instance_id'', JStr ''iid''),
            (''scores'', JObj [(''status'', JStr ''unknown'')])],
        AgentRun [Transcript [UserMessage (JStr ''fix bug'')]]
           [(''instance_id'', JStr ''iid''),
            (''scores'', JObj [(''status'', JStr ''unknown'')])]]"
proof -
  note t = conversions_independent [where ps = blank_str]
  from t [THEN conjunct2, THEN conjunct2, THEN mp, OF read_history_eval [of blank_str]]
  have "inv_ids [AssistantMessage (JStr [])
            (Some [ToolCall ''call_1'' (JStr ''read_file'') (JObj [(''path'', JStr ''a.py'')])
                     (ToolCallContent ''markdown'' ''Reading file: `a.py`'')]),
          ToolMessage (JStr ''x = 1'') ''call_1'' (JStr ''read_file'')] = [''call_1'']"
    by (simp add: inv_ids_def call_id_of_def string_of_nat_1)
  with read_history_eval [of blank_str] parse_twice_example [of blank_str]
  show ?thesis by (intro conjI)
qed

end
